theory Spec2Isabelle
  imports Complex_Main "HOL-Library.Word"
begin

section \<open>Double-precision values\<close>

text \<open>
  The C++ sources compute durations and ratios in \<open>double\<close>. A finite double is
  idealised as the real number it stands for (no rounding); the three special values
  that IEEE 754 arithmetic produces on division by zero are kept, so that an unguarded
  division is visible in the model instead of collapsing to HOL's \<open>x / 0 = 0\<close>.
  Zero has no sign here: every zero denominator of the modelled code is \<open>+0.0\<close>.
\<close>

datatype double = Finite real | PosInf | NegInf | NaN

fun dadd :: "double \<Rightarrow> double \<Rightarrow> double" where
  "dadd (Finite x) (Finite y) = Finite (x + y)"
| "dadd NaN _ = NaN"
| "dadd _ NaN = NaN"
| "dadd PosInf NegInf = NaN"
| "dadd NegInf PosInf = NaN"
| "dadd PosInf _ = PosInf"
| "dadd _ PosInf = PosInf"
| "dadd NegInf _ = NegInf"
| "dadd _ NegInf = NegInf"

definition inf_of_sign :: "bool \<Rightarrow> double" where
  "inf_of_sign positive = (if positive then PosInf else NegInf)"

fun dmul :: "double \<Rightarrow> double \<Rightarrow> double" where
  "dmul (Finite x) (Finite y) = Finite (x * y)"
| "dmul NaN _ = NaN"
| "dmul _ NaN = NaN"
| "dmul (Finite x) PosInf = (if x = 0 then NaN else inf_of_sign (0 < x))"
| "dmul (Finite x) NegInf = (if x = 0 then NaN else inf_of_sign (x < 0))"
| "dmul PosInf (Finite y) = (if y = 0 then NaN else inf_of_sign (0 < y))"
| "dmul NegInf (Finite y) = (if y = 0 then NaN else inf_of_sign (y < 0))"
| "dmul PosInf PosInf = PosInf"
| "dmul PosInf NegInf = NegInf"
| "dmul NegInf PosInf = NegInf"
| "dmul NegInf NegInf = PosInf"

fun ddiv :: "double \<Rightarrow> double \<Rightarrow> double" where
  "ddiv (Finite x) (Finite y) =
     (if y \<noteq> 0 then Finite (x / y) else if x = 0 then NaN else inf_of_sign (0 < x))"
| "ddiv NaN _ = NaN"
| "ddiv _ NaN = NaN"
| "ddiv (Finite x) PosInf = Finite 0"
| "ddiv (Finite x) NegInf = Finite 0"
| "ddiv PosInf (Finite y) = inf_of_sign (0 \<le> y)"
| "ddiv NegInf (Finite y) = inf_of_sign (y < 0)"
| "ddiv PosInf PosInf = NaN"
| "ddiv PosInf NegInf = NaN"
| "ddiv NegInf PosInf = NaN"
| "ddiv NegInf NegInf = NaN"

fun dceil :: "double \<Rightarrow> double" where
  "dceil (Finite x) = Finite (of_int \<lceil>x\<rceil>)"
| "dceil d = d"

fun dless :: "double \<Rightarrow> double \<Rightarrow> bool" where
  "dless (Finite x) (Finite y) = (x < y)"
| "dless NaN _ = False"
| "dless _ NaN = False"
| "dless NegInf NegInf = False"
| "dless NegInf _ = True"
| "dless PosInf _ = False"
| "dless (Finite x) PosInf = True"
| "dless (Finite x) NegInf = False"

text \<open>\<open>std::max (a, b)\<close> is \<open>(a < b) ? b : a\<close>.\<close>

definition dmax :: "double \<Rightarrow> double \<Rightarrow> double" where
  "dmax a b = (if dless a b then b else a)"

section \<open>PHY timing model (lora-phy.cc)\<close>

text \<open>
  \<open>LoraTxParameters\<close> is declared in a header that is not part of the sources at hand.
  Its fields are the ones \<open>lora-phy.cc\<close> reads; the integer fields are the unsigned
  8-bit and 32-bit fields that the casts \<open>int (txParams.sf)\<close>, \<open>unsigned (params.sf)\<close>
  and \<open>unsigned (params.codingRate)\<close> and the cast \<open>double (txParams.nPreamble)\<close> of
  the source point to. \<open>bandwidthHz\<close> is a finite double.
\<close>

record LoraTxParameters =
  sf :: "8 word"
  headerDisabled :: bool
  codingRate :: "8 word"
  bandwidthHz :: real
  nPreamble :: "32 word"
  crcEnabled :: bool
  lowDataRateOptimizationEnabled :: bool

text \<open>
  A packet as the two modelled files see it: the address of the object (maps keyed by
  \<open>Ptr<Packet const>\<close> compare addresses), its size in bytes (\<open>GetSize\<close>, a
  \<open>uint32_t\<close>), what \<open>IsUplink ()\<close> of its LoRaWAN MAC header answers, and the
  spreading factor carried by its \<open>LoraTag\<close>.
\<close>

record Packet =
  ptr :: nat
  GetSize :: "32 word"
  mHdr_IsUplink :: bool
  tag_GetSpreadingFactor :: "8 word"

text \<open>
  \<open>Seconds (x)\<close> for a double \<open>x\<close> makes a \<open>Time\<close>: a whole number of nanoseconds, the
  one nearest to \<open>x\<close> seconds. Such a \<open>Time\<close> is kept here as the double-precision
  value in seconds that \<open>GetSeconds ()\<close> reads back from it. The 64-bit range of the
  nanosecond count is not modelled, and an infinity or a NaN stays what it is.
\<close>

fun Seconds_of_double :: "double \<Rightarrow> double" where
  "Seconds_of_double (Finite x) =
     Finite (real_of_int (round (x * 1000000000)) / 1000000000)"
| "Seconds_of_double d = d"

definition GetTSym :: "LoraTxParameters \<Rightarrow> double" where
  "GetTSym txParams =
     Seconds_of_double
       (ddiv (Finite (2 ^ unat (sf txParams))) (Finite (bandwidthHz txParams)))"

text \<open>
  In \<open>8 * pl - 4 * txParams.sf + 28\<close> the operand \<open>pl\<close> is a \<open>uint32_t\<close> and
  \<open>4 * txParams.sf\<close> an \<open>int\<close>, so the three terms are combined in unsigned 32-bit
  arithmetic; only then is the value converted to \<open>double\<close> for \<open>+ 16 * crc - 20 * h\<close>.
\<close>

definition GetOnAirTime :: "Packet \<Rightarrow> LoraTxParameters \<Rightarrow> double" where
  "GetOnAirTime packet txParams =
     (let tSym = GetTSym txParams;
          tPreamble = dmul (Finite (real (unat (nPreamble txParams)) + 4.25)) tSym;
          pl = GetSize packet;
          de = (if lowDataRateOptimizationEnabled txParams then 1 else 0 :: real);
          h = (if headerDisabled txParams then 1 else 0 :: real);
          crc = (if crcEnabled txParams then 1 else 0 :: real);
          num = real (unat (8 * pl - 4 * ucast (sf txParams) + 28)) + 16 * crc - 20 * h;
          den = 4 * (real (unat (sf txParams)) - 2 * de);
          payloadSymbNb =
            dadd (Finite 8)
              (dmax (dmul (dceil (ddiv (Finite num) (Finite den)))
                          (Finite (real (unat (codingRate txParams) + 4))))
                    (Finite 0));
          tPayload = dmul payloadSymbNb tSym
      in Seconds_of_double (dadd tPreamble tPayload))"


section \<open>Packet tracker (lora-packet-tracker.cc)\<close>

subsection \<open>Simulator time\<close>

text \<open>
  A \<open>Time\<close> of the simulator is a signed 64-bit count of nanoseconds; it is modelled
  as an \<open>int\<close> in that unit, and \<open>Time::Max ()\<close> is the largest such count.
  \<open>Simulator::Now ()\<close> and \<open>Simulator::GetContext ()\<close> are read from the
  simulator; the callbacks take them as the arguments \<open>now\<close> and \<open>context\<close>.
\<close>

type_synonym Time = int

definition Time_Max :: Time where
  "Time_Max = 2 ^ 63 - 1"

definition Seconds :: "int \<Rightarrow> Time" where
  "Seconds s = s * 1000000000"

definition GetSeconds :: "Time \<Rightarrow> real" where
  "GetSeconds t = real_of_int t / 1000000000"

text \<open>
  A difference of two \<open>Time\<close>s is a difference of their 64-bit counts. \<open>int64\<close> gives
  the count that a 64-bit two's complement result holds: the exact result when that
  lies between \<open>Time::Min ()\<close> and \<open>Time::Max ()\<close>, and the result wrapped around
  otherwise.
\<close>

definition Time_Min :: Time where
  "Time_Min = - (2 ^ 63)"

definition int64 :: "int \<Rightarrow> Time" where
  "int64 x = (x + 2 ^ 63) mod 2 ^ 64 - 2 ^ 63"

subsection \<open>std::map\<close>

text \<open>
  A \<open>std::map\<close> is a list of (key, value) pairs in increasing key order, which is the
  order its iterators walk. \<open>find\<close> is \<open>map_of\<close>; \<open>insert\<close> changes nothing when
  the key is already there and otherwise adds the pair at its place in the order;
  writing through the iterator that \<open>find\<close> returned changes the value stored under
  that key.
\<close>

definition map_insert :: "'k::linorder \<Rightarrow> 'v \<Rightarrow> ('k \<times> 'v) list \<Rightarrow> ('k \<times> 'v) list" where
  "map_insert k v m = (if map_of m k \<noteq> None then m else insort_key fst (k, v) m)"

fun map_modify :: "'k \<Rightarrow> ('v \<Rightarrow> 'v) \<Rightarrow> ('k \<times> 'v) list \<Rightarrow> ('k \<times> 'v) list" where
  "map_modify k f [] = []"
| "map_modify k f ((k', v') # m) =
     (if k = k' then (k', f v') # m else (k', v') # map_modify k f m)"

subsection \<open>Tracker state\<close>

datatype PhyPacketOutcome =
  RECEIVED | INTERFERED | NO_MORE_RECEIVERS | UNDER_SENSITIVITY | LOST_BECAUSE_TX | UNSET

text \<open>
  The three status structs and the three maps of the tracker, with the fields the
  source reads and writes. Map keys of type \<open>int\<close> hold gateway identifiers; the maps
  of the tracker are keyed by the packet's address.
\<close>

record MacPacketStatus =
  packet :: Packet
  sendTime :: Time
  senderId :: "32 word"
  receivedTime :: Time
  receptionTimes :: "(int \<times> Time) list"

record RetransmissionStatus =
  firstAttempt :: Time
  finishTime :: Time
  reTxAttempts :: "8 word"
  successful :: bool

record PacketStatus =
  packet :: Packet
  sendTime :: Time
  senderId :: "32 word"
  outcomes :: "(int \<times> PhyPacketOutcome) list"

record LoraPacketTracker =
  m_packetTracker :: "(nat \<times> PacketStatus) list"
  m_macPacketTracker :: "(nat \<times> MacPacketStatus) list"
  m_reTransmissionTracker :: "(nat \<times> RetransmissionStatus) list"

definition empty_tracker :: LoraPacketTracker where
  "empty_tracker =
     \<lparr>m_packetTracker = [], m_macPacketTracker = [], m_reTransmissionTracker = []\<rparr>"

text \<open>
  The ways a call can end without returning: \<open>NS_ABORT_MSG\<close> with its message, a failed
  \<open>NS_ASSERT\<close>, and the dereference of the \<open>end ()\<close> iterator that \<open>find\<close> returns
  for a key that is not in the map (undefined behaviour: no check is made and nothing
  is reported).
\<close>

datatype error = Abort string | AssertFailed | EndIteratorDereferenced

subsection \<open>Callbacks\<close>

definition IsUplink :: "Packet \<Rightarrow> bool" where
  "IsUplink pkt = mHdr_IsUplink pkt"

definition MacTransmissionCallback ::
  "Packet \<Rightarrow> Time \<Rightarrow> 32 word \<Rightarrow> LoraPacketTracker \<Rightarrow> LoraPacketTracker" where
  "MacTransmissionCallback pkt now context t =
     (if IsUplink pkt then
        let status = \<lparr>MacPacketStatus.packet = pkt, sendTime = now, senderId = context,
                       receivedTime = Time_Max, receptionTimes = []\<rparr>
        in t\<lparr>m_macPacketTracker := map_insert (ptr pkt) status (m_macPacketTracker t)\<rparr>
      else t)"

definition RequiredTransmissionsCallback ::
  "8 word \<Rightarrow> bool \<Rightarrow> Time \<Rightarrow> Packet \<Rightarrow> Time \<Rightarrow> LoraPacketTracker \<Rightarrow> LoraPacketTracker" where
  "RequiredTransmissionsCallback reqTx success firstAttempt' pkt now t =
     (let entry = \<lparr>firstAttempt = firstAttempt', finishTime = now,
                    reTxAttempts = reqTx, successful = success\<rparr>
      in t\<lparr>m_reTransmissionTracker :=
             map_insert (ptr pkt) entry (m_reTransmissionTracker t)\<rparr>)"

text \<open>
  The gateway key \<open>Simulator::GetContext ()\<close> is a \<open>uint32_t\<close> stored in a map keyed by
  \<open>int\<close>, hence \<open>sint\<close>.
\<close>

definition MacGwReceptionCallback ::
  "Packet \<Rightarrow> Time \<Rightarrow> 32 word \<Rightarrow> LoraPacketTracker \<Rightarrow> error + LoraPacketTracker" where
  "MacGwReceptionCallback pkt now context t =
     (if IsUplink pkt then
        (case map_of (m_macPacketTracker t) (ptr pkt) of
           Some _ \<Rightarrow>
             Inr (t\<lparr>m_macPacketTracker :=
                     map_modify (ptr pkt)
                       (\<lambda>st. let st' = st\<lparr>receptionTimes :=
                                             map_insert (sint context) now (receptionTimes st)\<rparr>
                             in if now < receivedTime st' then st'\<lparr>receivedTime := now\<rparr>
                                else st')
                       (m_macPacketTracker t)\<rparr>)
         | None \<Rightarrow> Inl (Abort ''Packet not found in tracker''))
      else Inr t)"

definition TransmissionCallback ::
  "Packet \<Rightarrow> 32 word \<Rightarrow> Time \<Rightarrow> LoraPacketTracker \<Rightarrow> LoraPacketTracker" where
  "TransmissionCallback pkt edId now t =
     (if IsUplink pkt then
        let status = \<lparr>PacketStatus.packet = pkt, sendTime = now, senderId = edId,
                       outcomes = []\<rparr>
        in t\<lparr>m_packetTracker := map_insert (ptr pkt) status (m_packetTracker t)\<rparr>
      else t)"

text \<open>
  The five PHY outcome callbacks have the same body up to the outcome they insert:
  \<open>find\<close>, then \<open>(*it).second.outcomes.insert\<close> with no test of the iterator.
\<close>

definition insert_outcome ::
  "PhyPacketOutcome \<Rightarrow> Packet \<Rightarrow> 32 word \<Rightarrow> LoraPacketTracker \<Rightarrow> error + LoraPacketTracker" where
  "insert_outcome outcome pkt gwId t =
     (if IsUplink pkt then
        (case map_of (m_packetTracker t) (ptr pkt) of
           Some _ \<Rightarrow>
             Inr (t\<lparr>m_packetTracker :=
                     map_modify (ptr pkt)
                       (\<lambda>st. st\<lparr>outcomes := map_insert (sint gwId) outcome (outcomes st)\<rparr>)
                       (m_packetTracker t)\<rparr>)
         | None \<Rightarrow> Inl EndIteratorDereferenced)
      else Inr t)"

definition PacketReceptionCallback ::
  "Packet \<Rightarrow> 32 word \<Rightarrow> LoraPacketTracker \<Rightarrow> error + LoraPacketTracker" where
  "PacketReceptionCallback = insert_outcome RECEIVED"

definition InterferenceCallback ::
  "Packet \<Rightarrow> 32 word \<Rightarrow> LoraPacketTracker \<Rightarrow> error + LoraPacketTracker" where
  "InterferenceCallback = insert_outcome INTERFERED"

definition NoMoreReceiversCallback ::
  "Packet \<Rightarrow> 32 word \<Rightarrow> LoraPacketTracker \<Rightarrow> error + LoraPacketTracker" where
  "NoMoreReceiversCallback = insert_outcome NO_MORE_RECEIVERS"

definition UnderSensitivityCallback ::
  "Packet \<Rightarrow> 32 word \<Rightarrow> LoraPacketTracker \<Rightarrow> error + LoraPacketTracker" where
  "UnderSensitivityCallback = insert_outcome UNDER_SENSITIVITY"

definition LostBecauseTxCallback ::
  "Packet \<Rightarrow> 32 word \<Rightarrow> LoraPacketTracker \<Rightarrow> error + LoraPacketTracker" where
  "LostBecauseTxCallback = insert_outcome LOST_BECAUSE_TX"

subsection \<open>Counting functions\<close>

text \<open>
  \<open>packetCounts.at (i)++\<close> on the six-element vector. The counters are C++ \<open>int\<close>s,
  modelled as \<open>int\<close>: each is at most the number of tracked packets.
\<close>

definition incr_at :: "nat \<Rightarrow> int list \<Rightarrow> int list" where
  "incr_at i packetCounts = packetCounts[i := packetCounts ! i + 1]"

definition CountPhyPacketsPerGw_body ::
  "Time \<Rightarrow> Time \<Rightarrow> int \<Rightarrow> nat \<times> PacketStatus \<Rightarrow> int list \<Rightarrow> int list" where
  "CountPhyPacketsPerGw_body startTime stopTime gwId itPhy packetCounts =
     (if PacketStatus.sendTime (snd itPhy) \<ge> startTime
         \<and> PacketStatus.sendTime (snd itPhy) \<le> stopTime then
        let packetCounts = incr_at 0 packetCounts
        in (case map_of (outcomes (snd itPhy)) gwId of
              None \<Rightarrow> packetCounts
            | Some RECEIVED \<Rightarrow> incr_at 1 packetCounts
            | Some INTERFERED \<Rightarrow> incr_at 2 packetCounts
            | Some NO_MORE_RECEIVERS \<Rightarrow> incr_at 3 packetCounts
            | Some UNDER_SENSITIVITY \<Rightarrow> incr_at 4 packetCounts
            | Some LOST_BECAUSE_TX \<Rightarrow> incr_at 5 packetCounts
            | Some UNSET \<Rightarrow> packetCounts)
      else packetCounts)"

definition CountPhyPacketsPerGw ::
  "Time \<Rightarrow> Time \<Rightarrow> int \<Rightarrow> LoraPacketTracker \<Rightarrow> int list" where
  "CountPhyPacketsPerGw startTime stopTime gwId t =
     fold (CountPhyPacketsPerGw_body startTime stopTime gwId) (m_packetTracker t)
       (replicate 6 0)"

text \<open>\<open>std::to_string\<close> of an \<open>int\<close>: decimal digits, with a minus sign when negative.\<close>

fun digits_of :: "nat \<Rightarrow> string" where
  "digits_of n =
     (if n < 10 then [''0123456789'' ! n]
      else digits_of (n div 10) @ [''0123456789'' ! (n mod 10)])"

definition to_string :: "int \<Rightarrow> string" where
  "to_string i = (if i < 0 then CHR ''-'' # digits_of (nat (- i)) else digits_of (nat i))"

definition PrintPhyPacketsPerGw_body ::
  "Time \<Rightarrow> Time \<Rightarrow> int \<Rightarrow> nat \<times> PacketStatus \<Rightarrow> int list \<Rightarrow> int list" where
  "PrintPhyPacketsPerGw_body startTime stopTime gwId itPhy packetCounts =
     (if PacketStatus.sendTime (snd itPhy) \<ge> startTime
         \<and> PacketStatus.sendTime (snd itPhy) \<le> stopTime then
        let packetCounts = incr_at 0 packetCounts
        in (case map_of (outcomes (snd itPhy)) gwId of
              None \<Rightarrow> packetCounts
            | Some RECEIVED \<Rightarrow> incr_at 1 packetCounts
            | Some INTERFERED \<Rightarrow> incr_at 2 packetCounts
            | Some NO_MORE_RECEIVERS \<Rightarrow> incr_at 3 packetCounts
            | Some LOST_BECAUSE_TX \<Rightarrow> incr_at 4 packetCounts
            | Some UNDER_SENSITIVITY \<Rightarrow> incr_at 5 packetCounts
            | Some UNSET \<Rightarrow> packetCounts)
      else packetCounts)"

definition PrintPhyPacketsPerGw ::
  "Time \<Rightarrow> Time \<Rightarrow> int \<Rightarrow> LoraPacketTracker \<Rightarrow> string" where
  "PrintPhyPacketsPerGw startTime stopTime gwId t =
     (let packetCounts =
            fold (PrintPhyPacketsPerGw_body startTime stopTime gwId) (m_packetTracker t)
              (replicate 6 0)
      in fold (\<lambda>i output. output @ to_string (packetCounts ! i) @ '' '') [0 ..< 6] [])"

text \<open>
  The string that lists a vector of counters in its order, each followed by a blank:
  what \<open>PrintPhyPacketsPerGw\<close> is to print of the counters of \<open>CountPhyPacketsPerGw\<close>.
\<close>

definition print_of_counts :: "int list \<Rightarrow> string" where
  "print_of_counts packetCounts = concat (map (\<lambda>c. to_string c @ '' '') packetCounts)"

subsection \<open>Simulation statistics\<close>

text \<open>
  The running totals of \<open>PrintSimulationStatistics\<close>: \<open>total\<close> is a \<open>uint32_t\<close>, the
  others are doubles. The byte and packet totals are sums of whole numbers, which a
  double holds exactly; \<open>totOffTraff\<close> sums on-air times.
\<close>

record Totals =
  total :: "32 word"
  totReceived :: real
  totInterfered :: real
  totNoMorePaths :: real
  totBusyGw :: real
  totUnderSens :: real
  totBytesReceived :: real
  totBytesSent :: real
  totOffTraff :: double

text \<open>
  The loop over one packet's outcomes, in gateway order, with its four flags and the
  received-bytes total; it stops at the first \<open>RECEIVED\<close> (\<open>break\<close>).
\<close>

fun outcomes_loop ::
  "real \<Rightarrow> (int \<times> PhyPacketOutcome) list \<Rightarrow> bool \<times> bool \<times> bool \<times> bool \<times> real
     \<Rightarrow> bool \<times> bool \<times> bool \<times> bool \<times> real" where
  "outcomes_loop bytes [] flags = flags"
| "outcomes_loop bytes (out # rest) (received, interfered, noPaths, busyGw, bytesReceived) =
     (if snd out = RECEIVED then (True, interfered, noPaths, busyGw, bytesReceived + bytes)
      else if \<not> interfered \<and> snd out = INTERFERED then
        outcomes_loop bytes rest (received, True, noPaths, busyGw, bytesReceived)
      else if \<not> noPaths \<and> snd out = NO_MORE_RECEIVERS then
        outcomes_loop bytes rest (received, interfered, True, busyGw, bytesReceived)
      else if \<not> busyGw \<and> snd out = LOST_BECAUSE_TX then
        outcomes_loop bytes rest (received, interfered, noPaths, True, bytesReceived)
      else outcomes_loop bytes rest (received, interfered, noPaths, busyGw, bytesReceived))"

text \<open>
  One round of the loop over \<open>m_packetTracker\<close>. The bound \<open>startTime - Seconds (5)\<close> is
  a 64-bit difference, which wraps around for a \<open>startTime\<close> within five seconds of
  \<open>Time::Min ()\<close>. \<open>pd.first\<close> and the \<open>packet\<close> field of
  \<open>pd.second\<close> are the same pointer. \<open>LoraTxParameters params\<close> starts from the default
  member values of the struct, which the missing header sets: they are the argument
  \<open>dflt\<close>. \<open>MilliSeconds (16)\<close> is 0.016 s.
\<close>

definition PrintSimulationStatistics_body ::
  "Time \<Rightarrow> LoraTxParameters \<Rightarrow> nat \<times> PacketStatus \<Rightarrow> Totals \<Rightarrow> Totals" where
  "PrintSimulationStatistics_body startTime dflt pd s =
     (if PacketStatus.sendTime (snd pd) < int64 (startTime - Seconds 5) then s
      else
        let pkt = PacketStatus.packet (snd pd);
            bytes = real (unat (GetSize pkt));
            params = dflt\<lparr>sf := tag_GetSpreadingFactor pkt\<rparr>;
            params = params\<lparr>lowDataRateOptimizationEnabled :=
                              dless (Finite (16 / 1000)) (GetTSym params)\<rparr>;
            (received, interfered, noPaths, busyGw, bytesReceived) =
              outcomes_loop bytes (outcomes (snd pd))
                (False, False, False, False, totBytesReceived s);
            s = s\<lparr>total := total s + 1,
                   totBytesSent := totBytesSent s + bytes,
                   totOffTraff := dadd (totOffTraff s) (GetOnAirTime pkt params),
                   totBytesReceived := bytesReceived\<rparr>
        in if received then s\<lparr>totReceived := totReceived s + 1\<rparr>
           else if interfered then s\<lparr>totInterfered := totInterfered s + 1\<rparr>
           else if noPaths then s\<lparr>totNoMorePaths := totNoMorePaths s + 1\<rparr>
           else if busyGw then s\<lparr>totBusyGw := totBusyGw s + 1\<rparr>
           else s\<lparr>totUnderSens := totUnderSens s + 1\<rparr>)"

definition Totals_init :: Totals where
  "Totals_init =
     \<lparr>total = 0, totReceived = 0, totInterfered = 0, totNoMorePaths = 0, totBusyGw = 0,
      totUnderSens = 0, totBytesReceived = 0, totBytesSent = 0, totOffTraff = Finite 0\<rparr>"

text \<open>
  The report: the numbers that the function writes into its string, in the order it
  writes them (the formatting of doubles is not modelled).
\<close>

record Report =
  packets_sent :: "32 word"
  packets_received :: real
  pct_RECEIVED :: double
  pct_INTERFERED :: double
  pct_NO_MORE_RECEIVERS :: double
  pct_BUSY_GATEWAY :: double
  pct_UNDER_SENSITIVITY :: double
  input_traffic :: double
  network_throughput :: double
  total_offered_traffic :: double

definition percent :: "real \<Rightarrow> 32 word \<Rightarrow> double" where
  "percent tot n = dmul (ddiv (Finite tot) (Finite (real (unat n)))) (Finite 100)"

text \<open>
  \<open>NS_ASSERT (startTime < Simulator::Now ())\<close> comes first. The elapsed time
  \<open>now - startTime\<close> is then positive; it is kept exact, which is the 64-bit
  difference unless \<open>startTime\<close> lies more than \<open>Time::Max ()\<close> before \<open>now\<close>. It
  divides the three traffic figures and nothing else.
\<close>

definition PrintSimulationStatistics ::
  "Time \<Rightarrow> Time \<Rightarrow> LoraTxParameters \<Rightarrow> LoraPacketTracker \<Rightarrow> error + Report" where
  "PrintSimulationStatistics startTime now dflt t =
     (if \<not> startTime < now then Inl AssertFailed
      else
        let s = fold (PrintSimulationStatistics_body startTime dflt) (m_packetTracker t)
                  Totals_init;
            totTime = GetSeconds (now - startTime)
        in Inr \<lparr>packets_sent = total s,
                 packets_received = totReceived s,
                 pct_RECEIVED = percent (totReceived s) (total s),
                 pct_INTERFERED = percent (totInterfered s) (total s),
                 pct_NO_MORE_RECEIVERS = percent (totNoMorePaths s) (total s),
                 pct_BUSY_GATEWAY = percent (totBusyGw s) (total s),
                 pct_UNDER_SENSITIVITY = percent (totUnderSens s) (total s),
                 input_traffic = ddiv (Finite (totBytesSent s * 8)) (Finite totTime),
                 network_throughput = ddiv (Finite (totBytesReceived s * 8)) (Finite totTime),
                 total_offered_traffic = ddiv (totOffTraff s) (Finite totTime)\<rparr>)"

subsection \<open>Runs of the tracker\<close>

text \<open>
  The trace sources call the tracker's callbacks one at a time, each at the simulator's
  current time, which never decreases and never exceeds \<open>Time::Max ()\<close>. An event names
  the callback and its arguments; \<open>reachable now t\<close> says that the tracker, empty at
  time 0, can be in state \<open>t\<close> when the clock shows \<open>now\<close>. A callback that does not
  return has no successor state.
\<close>

datatype event =
    MacTransmission Packet "32 word"
  | RequiredTransmissions "8 word" bool Time Packet
  | MacGwReception Packet "32 word"
  | Transmission Packet "32 word"
  | PacketReception Packet "32 word"
  | Interference Packet "32 word"
  | NoMoreReceivers Packet "32 word"
  | UnderSensitivity Packet "32 word"
  | LostBecauseTx Packet "32 word"

fun deliver :: "Time \<Rightarrow> event \<Rightarrow> LoraPacketTracker \<Rightarrow> error + LoraPacketTracker" where
  "deliver now (MacTransmission pkt context) t = Inr (MacTransmissionCallback pkt now context t)"
| "deliver now (RequiredTransmissions reqTx success first pkt) t =
     Inr (RequiredTransmissionsCallback reqTx success first pkt now t)"
| "deliver now (MacGwReception pkt context) t = MacGwReceptionCallback pkt now context t"
| "deliver now (Transmission pkt edId) t = Inr (TransmissionCallback pkt edId now t)"
| "deliver now (PacketReception pkt gwId) t = PacketReceptionCallback pkt gwId t"
| "deliver now (Interference pkt gwId) t = InterferenceCallback pkt gwId t"
| "deliver now (NoMoreReceivers pkt gwId) t = NoMoreReceiversCallback pkt gwId t"
| "deliver now (UnderSensitivity pkt gwId) t = UnderSensitivityCallback pkt gwId t"
| "deliver now (LostBecauseTx pkt gwId) t = LostBecauseTxCallback pkt gwId t"

inductive reachable :: "Time \<Rightarrow> LoraPacketTracker \<Rightarrow> bool" where
  start: "reachable 0 empty_tracker"
| step: "reachable now t \<Longrightarrow> now \<le> now' \<Longrightarrow> now' \<le> Time_Max \<Longrightarrow> deliver now' e t = Inr t'
         \<Longrightarrow> reachable now' t'"

section \<open>The specification's formulas\<close>

text \<open>
  The on-air time as the specification words it, over unbounded integers and reals:
  numerator \<open>8 payloadBytes - 4 sf + 28 + 16 crcEnabled - 20 headerDisabled\<close>,
  denominator \<open>4 (sf - 2 lowDataRateOptimization)\<close>, and
  \<open>8 + max (0, ceil (numerator / denominator) (codingRate + 4))\<close> payload symbols.
\<close>

definition SymbolDuration_spec :: "nat \<Rightarrow> real \<Rightarrow> real" where
  "SymbolDuration_spec sf' bandwidth = 2 ^ sf' / bandwidth"

definition OnAirTime_spec ::
  "nat \<Rightarrow> nat \<Rightarrow> nat \<Rightarrow> real \<Rightarrow> nat \<Rightarrow> bool \<Rightarrow> bool \<Rightarrow> bool \<Rightarrow> real" where
  "OnAirTime_spec payloadBytes sf' codingRate' bandwidth preambleSymbols headerDisabled'
     crcEnabled' lowDataRateOptimization =
     (let symbolDuration = SymbolDuration_spec sf' bandwidth;
          preambleTime = (real preambleSymbols + 4.25) * symbolDuration;
          numerator = 8 * int payloadBytes - 4 * int sf' + 28
                      + 16 * (if crcEnabled' then 1 else 0)
                      - 20 * (if headerDisabled' then 1 else 0);
          denominator = 4 * (int sf' - 2 * (if lowDataRateOptimization then 1 else 0));
          payloadSymbolCount =
            8 + max 0 (\<lceil>real_of_int numerator / real_of_int denominator\<rceil>
                       * (int codingRate' + 4));
          payloadTime = real_of_int payloadSymbolCount * symbolDuration
      in preambleTime + payloadTime)"

text \<open>
  The category of a packet as the specification words it: the first of Received,
  Interfered, NoMoreReceivers, LostBecauseTx that some gateway recorded, and
  UnderSensitivity otherwise.
\<close>

definition category_spec :: "(int \<times> PhyPacketOutcome) list \<Rightarrow> PhyPacketOutcome" where
  "category_spec outs =
     (if RECEIVED \<in> snd ` set outs then RECEIVED
      else if INTERFERED \<in> snd ` set outs then INTERFERED
      else if NO_MORE_RECEIVERS \<in> snd ` set outs then NO_MORE_RECEIVERS
      else if LOST_BECAUSE_TX \<in> snd ` set outs then LOST_BECAUSE_TX
      else UNDER_SENSITIVITY)"

text \<open>
  The records that \<open>PrintSimulationStatistics\<close> does not skip: the test of its loop,
  with the same 64-bit difference.
\<close>

definition in_window :: "Time \<Rightarrow> nat \<times> PacketStatus \<Rightarrow> bool" where
  "in_window startTime pd =
     (\<not> PacketStatus.sendTime (snd pd) < int64 (startTime - Seconds 5))"

definition in_category ::
  "Time \<Rightarrow> PhyPacketOutcome \<Rightarrow> LoraPacketTracker \<Rightarrow> (nat \<times> PacketStatus) list" where
  "in_category startTime c t =
     filter (\<lambda>pd. in_window startTime pd \<and> category_spec (outcomes (snd pd)) = c)
       (m_packetTracker t)"

section \<open>Example inputs\<close>

text \<open>
  A 125 kHz parameter profile at spreading factor 12, an empty and a three-byte packet,
  an uplink and a downlink packet, and small tracker states built by the callbacks.
\<close>

definition params_sf12 :: LoraTxParameters where
  "params_sf12 =
     \<lparr>sf = 12, headerDisabled = False, codingRate = 1, bandwidthHz = 125000,
      nPreamble = 8, crcEnabled = True, lowDataRateOptimizationEnabled = False\<rparr>"

definition packet_0_bytes :: Packet where
  "packet_0_bytes =
     \<lparr>ptr = 1, GetSize = 0, mHdr_IsUplink = True, tag_GetSpreadingFactor = 12\<rparr>"

definition packet_3_bytes :: Packet where
  "packet_3_bytes =
     \<lparr>ptr = 2, GetSize = 3, mHdr_IsUplink = True, tag_GetSpreadingFactor = 12\<rparr>"

definition uplink_packet :: Packet where
  "uplink_packet =
     \<lparr>ptr = 16, GetSize = 23, mHdr_IsUplink = True, tag_GetSpreadingFactor = 7\<rparr>"

definition downlink_packet :: Packet where
  "downlink_packet =
     \<lparr>ptr = 32, GetSize = 14, mHdr_IsUplink = False, tag_GetSpreadingFactor = 9\<rparr>"

text \<open>The uplink packet sent by device 5 at time 0 and not yet seen by any gateway.\<close>

definition tracker_sent :: LoraPacketTracker where
  "tracker_sent =
     \<lparr>m_packetTracker =
        [(16, \<lparr>PacketStatus.packet = uplink_packet, sendTime = 0, senderId = 5,
                outcomes = []\<rparr>)],
      m_macPacketTracker =
        [(16, \<lparr>MacPacketStatus.packet = uplink_packet, sendTime = 0, senderId = 5,
                receivedTime = Time_Max, receptionTimes = []\<rparr>)],
      m_reTransmissionTracker = []\<rparr>"

text \<open>The same, after gateway 1 reported the packet under sensitivity.\<close>

definition tracker_under_sensitivity :: LoraPacketTracker where
  "tracker_under_sensitivity =
     tracker_sent\<lparr>m_packetTracker :=
        [(16, \<lparr>PacketStatus.packet = uplink_packet, sendTime = 0, senderId = 5,
                outcomes = [(1, UNDER_SENSITIVITY)]\<rparr>)]\<rparr>"

text \<open>The same, after gateway 1 received the packet at the PHY layer.\<close>

definition tracker_received :: LoraPacketTracker where
  "tracker_received =
     tracker_sent\<lparr>m_packetTracker :=
        [(16, \<lparr>PacketStatus.packet = uplink_packet, sendTime = 0, senderId = 5,
                outcomes = [(1, RECEIVED)]\<rparr>)]\<rparr>"

section \<open>Notions used in the properties\<close>

text \<open>The window test of the two per-gateway counting functions.\<close>

definition in_range :: "Time \<Rightarrow> Time \<Rightarrow> nat \<times> PacketStatus \<Rightarrow> bool" where
  "in_range startTime stopTime itPhy =
     (startTime \<le> PacketStatus.sendTime (snd itPhy)
      \<and> PacketStatus.sendTime (snd itPhy) \<le> stopTime)"

text \<open>The sum of the five outcome counters of a six-counter vector.\<close>

definition outcome_sum :: "int list \<Rightarrow> int" where
  "outcome_sum c = c ! 1 + c ! 2 + c ! 3 + c ! 4 + c ! 5"

text \<open>
  At most one outcome per packet and gateway: no packet is tracked twice and no
  record lists a gateway twice.
\<close>

definition one_outcome_per_gateway :: "LoraPacketTracker \<Rightarrow> bool" where
  "one_outcome_per_gateway t =
     (distinct (map fst (m_packetTracker t))
      \<and> (\<forall>pd \<in> set (m_packetTracker t). distinct (map fst (outcomes (snd pd)))))"

text \<open>
  The earliest reception time of a MAC record is the least time in its gateway map,
  or \<open>Time::Max ()\<close> when the map is empty.
\<close>

definition earliest_is_min :: "MacPacketStatus \<Rightarrow> bool" where
  "earliest_is_min st =
     (receivedTime st
        = (if receptionTimes st = [] then Time_Max
           else Min (snd ` set (receptionTimes st))))"

text \<open>
  The invariant of the MAC records at clock value \<open>now\<close>: the above, and no recorded
  reception lies in the future.
\<close>

definition mac_inv :: "Time \<Rightarrow> LoraPacketTracker \<Rightarrow> bool" where
  "mac_inv now t =
     (\<forall>pd \<in> set (m_macPacketTracker t).
        earliest_is_min (snd pd) \<and> (\<forall>x \<in> set (receptionTimes (snd pd)). snd x \<le> now))"

text \<open>What \<open>MacGwReceptionCallback\<close> does to the record it found.\<close>

definition note_reception :: "int \<Rightarrow> Time \<Rightarrow> MacPacketStatus \<Rightarrow> MacPacketStatus" where
  "note_reception g now st =
     (let st' = st\<lparr>receptionTimes := map_insert g now (receptionTimes st)\<rparr>
      in if now < receivedTime st' then st'\<lparr>receivedTime := now\<rparr> else st')"

text \<open>
  The example packet heard by gateway 2 at time 3, and then also by gateway 1 at
  time 4.
\<close>

definition tracker_heard_once :: LoraPacketTracker where
  "tracker_heard_once =
     tracker_sent\<lparr>m_macPacketTracker :=
        [(16, \<lparr>MacPacketStatus.packet = uplink_packet, sendTime = 0, senderId = 5,
                receivedTime = 3, receptionTimes = [(2, 3)]\<rparr>)]\<rparr>"

definition tracker_heard_twice :: LoraPacketTracker where
  "tracker_heard_twice =
     tracker_sent\<lparr>m_macPacketTracker :=
        [(16, \<lparr>MacPacketStatus.packet = uplink_packet, sendTime = 0, senderId = 5,
                receivedTime = 3, receptionTimes = [(1, 4), (2, 3)]\<rparr>)]\<rparr>"

text \<open>
  Two packets sent at time 0: one received by gateway 1 and interfered at gateway 2,
  the other under sensitivity at gateway 1 and interfered at gateway 2.
\<close>

definition second_uplink_packet :: Packet where
  "second_uplink_packet =
     \<lparr>ptr = 48, GetSize = 30, mHdr_IsUplink = True, tag_GetSpreadingFactor = 9\<rparr>"

definition tracker_two_packets :: LoraPacketTracker where
  "tracker_two_packets =
     \<lparr>m_packetTracker =
        [(16, \<lparr>PacketStatus.packet = uplink_packet, sendTime = 0, senderId = 5,
                outcomes = [(1, RECEIVED), (2, INTERFERED)]\<rparr>),
         (48, \<lparr>PacketStatus.packet = second_uplink_packet, sendTime = 0, senderId = 6,
                outcomes = [(1, UNDER_SENSITIVITY), (2, INTERFERED)]\<rparr>)],
      m_macPacketTracker = [],
      m_reTransmissionTracker = []\<rparr>"

text \<open>The five running counters of the statistics loop, by the category they count.\<close>

fun count_of :: "PhyPacketOutcome \<Rightarrow> Totals \<Rightarrow> real" where
  "count_of RECEIVED s = totReceived s"
| "count_of INTERFERED s = totInterfered s"
| "count_of NO_MORE_RECEIVERS s = totNoMorePaths s"
| "count_of LOST_BECAUSE_TX s = totBusyGw s"
| "count_of UNDER_SENSITIVITY s = totUnderSens s"
| "count_of UNSET s = 0"

text \<open>
  The number of payload symbols as the specification words it, over unbounded
  integers: \<open>8 + max (0, ceil (numerator / denominator) (codingRate + 4))\<close>.
\<close>

definition PayloadSymbolCount_spec :: "nat \<Rightarrow> nat \<Rightarrow> nat \<Rightarrow> bool \<Rightarrow> bool \<Rightarrow> bool \<Rightarrow> int" where
  "PayloadSymbolCount_spec payloadBytes sf' codingRate' headerDisabled' crcEnabled'
     lowDataRateOptimization =
     (let numerator = 8 * int payloadBytes - 4 * int sf' + 28
                      + 16 * (if crcEnabled' then 1 else 0)
                      - 20 * (if headerDisabled' then 1 else 0);
          denominator = 4 * (int sf' - 2 * (if lowDataRateOptimization then 1 else 0))
      in 8 + max 0 (\<lceil>real_of_int numerator / real_of_int denominator\<rceil>
                    * (int codingRate' + 4)))"

text \<open>
  The payload sizes for which \<open>8 * pl - 4 * sf + 28\<close> stays within the unsigned 32-bit
  range, the specification's number of payload symbols at the arguments of
  \<open>GetOnAirTime\<close>, and the symbol time in seconds after its rounding to whole
  nanoseconds.
\<close>

definition no_wrap :: "Packet \<Rightarrow> LoraTxParameters \<Rightarrow> bool" where
  "no_wrap pkt txParams =
     (4 * unat (sf txParams) \<le> 8 * unat (GetSize pkt) + 28
      \<and> 8 * unat (GetSize pkt) + 28 < 2 ^ 32)"

definition payload_symbols_of :: "Packet \<Rightarrow> LoraTxParameters \<Rightarrow> int" where
  "payload_symbols_of pkt txParams =
     PayloadSymbolCount_spec (unat (GetSize pkt)) (unat (sf txParams))
       (unat (codingRate txParams)) (headerDisabled txParams) (crcEnabled txParams)
       (lowDataRateOptimizationEnabled txParams)"

definition symbol_time :: "LoraTxParameters \<Rightarrow> real" where
  "symbol_time txParams =
     real_of_int (round (2 ^ unat (sf txParams) / bandwidthHz txParams * 1000000000))
       / 1000000000"

text \<open>A six-counter vector with its fifth and sixth counters exchanged.\<close>

definition swap_last_two :: "int list \<Rightarrow> int list" where
  "swap_last_two c = c[4 := c ! 5, 5 := c ! 4]"

section \<open>Properties\<close>

subsection \<open>The example states are states the callbacks build\<close>

lemma tracker_sent_built:
  "MacTransmissionCallback uplink_packet 0 5
     (TransmissionCallback uplink_packet 5 0 empty_tracker) = tracker_sent"
  by (simp add: MacTransmissionCallback_def TransmissionCallback_def empty_tracker_def
      tracker_sent_def IsUplink_def uplink_packet_def map_insert_def)

lemma tracker_under_sensitivity_built:
  "UnderSensitivityCallback uplink_packet 1 tracker_sent = Inr tracker_under_sensitivity"
  by (simp add: UnderSensitivityCallback_def insert_outcome_def tracker_sent_def
      tracker_under_sensitivity_def IsUplink_def uplink_packet_def map_insert_def)

lemma tracker_received_built:
  "PacketReceptionCallback uplink_packet 1 tracker_sent = Inr tracker_received"
  by (simp add: PacketReceptionCallback_def insert_outcome_def tracker_sent_def
      tracker_received_def IsUplink_def uplink_packet_def map_insert_def)

lemma tracker_two_packets_built:
  "(case PacketReceptionCallback uplink_packet 1
           (TransmissionCallback second_uplink_packet 6 0
              (TransmissionCallback uplink_packet 5 0 empty_tracker)) of
      Inl e \<Rightarrow> Inl e
    | Inr t \<Rightarrow>
        (case InterferenceCallback uplink_packet 2 t of
           Inl e \<Rightarrow> Inl e
         | Inr t \<Rightarrow>
             (case UnderSensitivityCallback second_uplink_packet 1 t of
                Inl e \<Rightarrow> Inl e
              | Inr t \<Rightarrow> InterferenceCallback second_uplink_packet 2 t)))
   = Inr tracker_two_packets"
  by (simp add: PacketReceptionCallback_def InterferenceCallback_def
      UnderSensitivityCallback_def TransmissionCallback_def insert_outcome_def
      empty_tracker_def tracker_two_packets_def IsUplink_def uplink_packet_def
      second_uplink_packet_def map_insert_def)

subsection \<open>On-air time\<close>

lemma ceiling_wrapped: "\<lceil>4294967292 / 48 :: real\<rceil> = 89478486"
  by (simp add: ceiling_eq_iff)

lemma ceiling_3_bytes: "\<lceil>20 / 48 :: real\<rceil> = 1"
  by (simp add: ceiling_eq_iff)

lemma ceiling_0_bytes_spec: "\<lceil>- 4 / 48 :: real\<rceil> = 0"
  by (simp add: ceiling_eq_iff)

text \<open>
  C1. \<open>GetOnAirTime\<close> is to return the preamble time plus the payload time of the
  specification's formula, whose numerator is
  \<open>8 payloadBytes - 4 sf + 28 + 16 crcEnabled - 20 headerDisabled\<close>. For an empty
  packet at spreading factor 12 with CRC and explicit header that numerator is \<open>-4\<close>
  and the formula gives \<open>8\<close> payload symbols. The code computes \<open>8 * pl - 4 * sf + 28\<close>
  in unsigned 32-bit arithmetic, obtains \<open>4294967276\<close> and returns the time of
  \<open>447392438\<close> payload symbols.
\<close>

theorem on_air_time_wraps:
  "GetOnAirTime packet_0_bytes params_sf12
     = Finite ((12.25 + 447392438) * (4096 / 125000))
   \<and> OnAirTime_spec 0 12 1 125000 8 False True False = (12.25 + 8) * (4096 / 125000)"
  by (simp add: GetOnAirTime_def GetTSym_def packet_0_bytes_def params_sf12_def Let_def
      dmax_def OnAirTime_spec_def SymbolDuration_spec_def ceiling_wrapped
      ceiling_0_bytes_spec)

text \<open>
  C9. The on-air time is to grow (weakly) with the payload size, all else fixed. With
  the parameters above the empty packet gets a longer on-air time than the three-byte
  packet: the unsigned subtraction wraps for the former and not for the latter.
\<close>

theorem on_air_time_not_monotone:
  "unat (GetSize packet_0_bytes) < unat (GetSize packet_3_bytes)
   \<and> GetOnAirTime packet_0_bytes params_sf12
       = Finite ((12.25 + 447392438) * (4096 / 125000))
   \<and> GetOnAirTime packet_3_bytes params_sf12 = Finite ((12.25 + 13) * (4096 / 125000))
   \<and> dless (GetOnAirTime packet_3_bytes params_sf12)
        (GetOnAirTime packet_0_bytes params_sf12)"
  by (simp add: GetOnAirTime_def GetTSym_def packet_0_bytes_def packet_3_bytes_def
      params_sf12_def Let_def dmax_def ceiling_wrapped ceiling_3_bytes)

text \<open>
  Away from the wrap-around the code computes the specification's number of payload
  symbols: it returns the preamble and payload symbols times the symbol time, where the
  symbol time and the result are each rounded to whole nanoseconds. There the on-air
  time grows weakly with the payload size.
\<close>

lemma unat_numerator:
  fixes pl :: "32 word" and s :: "8 word"
  assumes "4 * unat s \<le> 8 * unat pl + 28" "8 * unat pl + 28 < 2 ^ 32"
  shows "unat (8 * pl - 4 * ucast s + 28) = 8 * unat pl + 28 - 4 * unat s"
proof -
  have "8 * pl - 4 * ucast s + 28 = (of_nat (8 * unat pl + 28 - 4 * unat s) :: 32 word)"
    using assms(1) by (simp add: of_nat_diff)
  moreover have "8 * unat pl + 28 - 4 * unat s < 2 ^ 32"
    using assms(2) by simp
  ultimately show ?thesis
    by (simp add: unat_of_nat)
qed

lemma dmax_Finite_0: "dmax (Finite a) (Finite 0) = Finite (max 0 a)"
  by (simp add: dmax_def max_def)

lemma max_of_int_symbols:
  "max 0 (real_of_int c * real (m + 4)) = real_of_int (max 0 (c * (int m + 4)))"
proof -
  define z where "z = c * (int m + 4)"
  have "max 0 (real_of_int c * real (m + 4)) = max 0 (real_of_int z)"
    by (simp add: z_def)
  also have "\<dots> = real_of_int (max 0 z)"
    by (simp add: max_def)
  finally show ?thesis
    unfolding z_def .
qed

lemma GetTSym_Finite:
  "bandwidthHz txParams \<noteq> 0 \<Longrightarrow> GetTSym txParams = Finite (symbol_time txParams)"
  by (simp add: GetTSym_def symbol_time_def)

lemma GetOnAirTime_no_wrap:
  assumes "no_wrap pkt txParams" "bandwidthHz txParams \<noteq> 0"
    and "2 * (if lowDataRateOptimizationEnabled txParams then 1 else 0) < unat (sf txParams)"
  shows "GetOnAirTime pkt txParams
       = Seconds_of_double
           (Finite ((real (unat (nPreamble txParams)) + 4.25) * symbol_time txParams
                    + real_of_int (payload_symbols_of pkt txParams) * symbol_time txParams))"
proof -
  let ?crc = "if crcEnabled txParams then 1 else 0 :: int"
  let ?h = "if headerDisabled txParams then 1 else 0 :: int"
  let ?de = "if lowDataRateOptimizationEnabled txParams then 1 else 0 :: int"
  let ?num = "8 * int (unat (GetSize pkt)) - 4 * int (unat (sf txParams)) + 28
      + 16 * ?crc - 20 * ?h"
  let ?den = "4 * (int (unat (sf txParams)) - 2 * ?de)"
  have u: "unat (8 * GetSize pkt - 4 * ucast (sf txParams) + 28)
      = 8 * unat (GetSize pkt) + 28 - 4 * unat (sf txParams)"
    using assms(1) unfolding no_wrap_def by (intro unat_numerator) simp_all
  have num: "real (unat (8 * GetSize pkt - 4 * ucast (sf txParams) + 28))
      + 16 * (if crcEnabled txParams then 1 else 0)
      - 20 * (if headerDisabled txParams then 1 else 0) = real_of_int ?num"
    using assms(1) unfolding u no_wrap_def by (simp add: of_nat_diff)
  have den: "4 * (real (unat (sf txParams))
      - 2 * (if lowDataRateOptimizationEnabled txParams then 1 else 0)) = real_of_int ?den"
    by simp
  define k where "k = unat (sf txParams)"
  have "0 < 4 * (int k - 2 * ?de)"
    using assms(3) unfolding k_def [symmetric] by (auto split: if_splits)
  then have "0 < ?den"
    unfolding k_def .
  then have "0 < real_of_int ?den"
    by (simp only: of_int_0_less_iff)
  then have den0: "real_of_int ?den \<noteq> 0"
    by linarith
  have sym: "GetTSym txParams = Finite (symbol_time txParams)"
    using assms(2) by (rule GetTSym_Finite)
  have "GetOnAirTime pkt txParams
      = Seconds_of_double
          (Finite ((real (unat (nPreamble txParams)) + 4.25) * symbol_time txParams
                + (8 + max 0 (real_of_int \<lceil>real_of_int ?num / real_of_int ?den\<rceil>
                                * real (unat (codingRate txParams) + 4)))
                  * symbol_time txParams))"
    unfolding GetOnAirTime_def Let_def num den sym using den0
    by (simp add: dmax_Finite_0)
  also have "max 0 (real_of_int \<lceil>real_of_int ?num / real_of_int ?den\<rceil>
                       * real (unat (codingRate txParams) + 4))
      = real_of_int (max 0 (\<lceil>real_of_int ?num / real_of_int ?den\<rceil>
                              * (int (unat (codingRate txParams)) + 4)))"
    by (rule max_of_int_symbols)
  finally show ?thesis
    by (simp add: payload_symbols_of_def PayloadSymbolCount_spec_def Let_def)
qed

lemma PayloadSymbolCount_spec_mono:
  assumes "payloadBytes \<le> payloadBytes'" and "2 * (if ldro then 1 else 0) < sf'"
  shows "PayloadSymbolCount_spec payloadBytes sf' cr h crc ldro
       \<le> PayloadSymbolCount_spec payloadBytes' sf' cr h crc ldro"
proof -
  define num where "num = (\<lambda>pl. 8 * int pl - 4 * int sf' + 28 + 16 * (if crc then 1 else 0)
      - 20 * (if h then 1 else 0))"
  define den where "den = 4 * (int sf' - 2 * (if ldro then 1 else 0))"
  define a where "a = (\<lambda>pl. \<lceil>real_of_int (num pl) / real_of_int den\<rceil> * (int cr + 4))"
  have spec: "PayloadSymbolCount_spec pl sf' cr h crc ldro = 8 + max 0 (a pl)" for pl
    by (simp add: PayloadSymbolCount_spec_def Let_def a_def num_def den_def)
  have "0 < den"
    using assms(2) unfolding den_def by (auto split: if_splits)
  then have den: "0 < real_of_int den"
    by (simp only: of_int_0_less_iff)
  have "num payloadBytes \<le> num payloadBytes'"
    using assms(1) by (simp add: num_def)
  then have "real_of_int (num payloadBytes) \<le> real_of_int (num payloadBytes')"
    by (simp only: of_int_le_iff)
  then have "real_of_int (num payloadBytes) / real_of_int den
      \<le> real_of_int (num payloadBytes') / real_of_int den"
    using den by (intro divide_right_mono) simp_all
  then have "\<lceil>real_of_int (num payloadBytes) / real_of_int den\<rceil>
      \<le> \<lceil>real_of_int (num payloadBytes') / real_of_int den\<rceil>"
    by (rule ceiling_mono)
  then have "a payloadBytes \<le> a payloadBytes'"
    unfolding a_def by (intro mult_right_mono) simp_all
  then show ?thesis
    by (simp add: spec)
qed

lemma symbol_time_nonneg: "0 < bandwidthHz txParams \<Longrightarrow> 0 \<le> symbol_time txParams"
proof -
  assume "0 < bandwidthHz txParams"
  then have "0 \<le> 2 ^ unat (sf txParams) / bandwidthHz txParams * 1000000000"
    by simp
  then have "round (0 :: real)
      \<le> round (2 ^ unat (sf txParams) / bandwidthHz txParams * 1000000000)"
    by (rule round_mono)
  then show ?thesis
    by (simp add: symbol_time_def)
qed

lemma Seconds_of_double_mono:
  "x \<le> y \<Longrightarrow> \<not> dless (Seconds_of_double (Finite y)) (Seconds_of_double (Finite x))"
proof -
  assume "x \<le> y"
  then have "round (x * 1000000000) \<le> round (y * 1000000000)"
    by (intro round_mono) simp
  then show ?thesis
    by (simp add: divide_right_mono)
qed

lemma GetOnAirTime_mono_no_wrap:
  assumes "unat (GetSize pkt) \<le> unat (GetSize pkt')"
    and "no_wrap pkt txParams" "no_wrap pkt' txParams" "0 < bandwidthHz txParams"
    and "2 * (if lowDataRateOptimizationEnabled txParams then 1 else 0) < unat (sf txParams)"
  shows "\<not> dless (GetOnAirTime pkt' txParams) (GetOnAirTime pkt txParams)"
proof -
  have "payload_symbols_of pkt txParams \<le> payload_symbols_of pkt' txParams"
    unfolding payload_symbols_of_def using assms(1,5) by (intro PayloadSymbolCount_spec_mono)
  then have "real_of_int (payload_symbols_of pkt txParams)
      \<le> real_of_int (payload_symbols_of pkt' txParams)"
    by (simp only: of_int_le_iff)
  then have "real_of_int (payload_symbols_of pkt txParams) * symbol_time txParams
      \<le> real_of_int (payload_symbols_of pkt' txParams) * symbol_time txParams"
    using symbol_time_nonneg [OF assms(4)] by (rule mult_right_mono)
  then have "(real (unat (nPreamble txParams)) + 4.25) * symbol_time txParams
        + real_of_int (payload_symbols_of pkt txParams) * symbol_time txParams
      \<le> (real (unat (nPreamble txParams)) + 4.25) * symbol_time txParams
        + real_of_int (payload_symbols_of pkt' txParams) * symbol_time txParams"
    by (simp only: add_le_cancel_left)
  then have "\<not> dless
      (Seconds_of_double (Finite ((real (unat (nPreamble txParams)) + 4.25) * symbol_time txParams
        + real_of_int (payload_symbols_of pkt' txParams) * symbol_time txParams)))
      (Seconds_of_double (Finite ((real (unat (nPreamble txParams)) + 4.25) * symbol_time txParams
        + real_of_int (payload_symbols_of pkt txParams) * symbol_time txParams)))"
    by (rule Seconds_of_double_mono)
  moreover have bw: "bandwidthHz txParams \<noteq> 0"
    using assms(4) by simp
  moreover note GetOnAirTime_no_wrap [OF assms(2) bw assms(5)]
    GetOnAirTime_no_wrap [OF assms(3) bw assms(5)]
  ultimately show ?thesis
    by (simp only: not_False_eq_True)
qed


text \<open>
  At the example profile (spreading factor 12, 125 kHz) the symbol time is a whole
  number of nanoseconds, nothing is rounded, and away from the wrap-around the code
  returns the specification's on-air time exactly.
\<close>

lemma OnAirTime_spec_symbols:
  "OnAirTime_spec payloadBytes sf' cr bandwidth pre h crc ldro
     = (real pre + 4.25) * SymbolDuration_spec sf' bandwidth
       + real_of_int (PayloadSymbolCount_spec payloadBytes sf' cr h crc ldro)
         * SymbolDuration_spec sf' bandwidth"
  by (simp add: OnAirTime_spec_def PayloadSymbolCount_spec_def Let_def)

lemma symbol_time_sf12: "symbol_time params_sf12 = 32768000 / 1000000000"
  by (simp add: symbol_time_def params_sf12_def)

lemma GetOnAirTime_sf12:
  assumes "no_wrap pkt params_sf12"
  shows "GetOnAirTime pkt params_sf12
       = Finite (OnAirTime_spec (unat (GetSize pkt)) 12 1 125000 8 False True False)"
proof -
  define n where "n = payload_symbols_of pkt params_sf12"
  have np: "unat (nPreamble params_sf12) = 8"
    by (simp add: params_sf12_def)
  have "GetOnAirTime pkt params_sf12
      = Seconds_of_double
          (Finite ((real (unat (nPreamble params_sf12)) + 4.25) * symbol_time params_sf12
                   + real_of_int n * symbol_time params_sf12))"
    unfolding n_def using assms by (intro GetOnAirTime_no_wrap) (simp_all add: params_sf12_def)
  also have "(real (unat (nPreamble params_sf12)) + 4.25) * symbol_time params_sf12
                   + real_of_int n * symbol_time params_sf12
      = real_of_int (401408000 + n * 32768000) / 1000000000"
    using np by (simp add: symbol_time_sf12)
  also have "Seconds_of_double (Finite (real_of_int (401408000 + n * 32768000) / 1000000000))
      = Finite (real_of_int (401408000 + n * 32768000) / 1000000000)"
    by (simp del: of_int_add of_int_mult)
  also have "real_of_int (401408000 + n * 32768000) / 1000000000
      = OnAirTime_spec (unat (GetSize pkt)) 12 1 125000 8 False True False"
    by (simp add: OnAirTime_spec_symbols SymbolDuration_spec_def n_def payload_symbols_of_def
        params_sf12_def)
  finally show ?thesis .
qed

text \<open>
  The growth is not strict: three and four payload bytes take the same time on air.
\<close>

lemma on_air_time_plateau:
  "GetOnAirTime packet_3_bytes params_sf12
     = GetOnAirTime (packet_3_bytes\<lparr>GetSize := 4\<rparr>) params_sf12"
proof -
  have "\<lceil>28 / 48 :: real\<rceil> = 1"
    by (simp add: ceiling_eq_iff)
  then show ?thesis
    by (simp add: GetOnAirTime_def GetTSym_def packet_3_bytes_def params_sf12_def Let_def
        dmax_def ceiling_3_bytes)
qed

subsection \<open>Downlink packets\<close>

text \<open>
  C10. For a packet whose MAC header does not mark it as uplink, the transmission
  callback, the MAC transmission callback, the MAC gateway reception callback and the
  five PHY outcome callbacks return normally and leave the tracker, that is all three
  of its maps, as it was.
\<close>

theorem downlink_no_op:
  assumes "\<not> IsUplink pkt"
  shows "TransmissionCallback pkt edId now t = t
       \<and> MacTransmissionCallback pkt now context t = t
       \<and> MacGwReceptionCallback pkt now context t = Inr t
       \<and> PacketReceptionCallback pkt gwId t = Inr t
       \<and> InterferenceCallback pkt gwId t = Inr t
       \<and> NoMoreReceiversCallback pkt gwId t = Inr t
       \<and> UnderSensitivityCallback pkt gwId t = Inr t
       \<and> LostBecauseTxCallback pkt gwId t = Inr t"
  using assms
  by (simp add: TransmissionCallback_def MacTransmissionCallback_def
      MacGwReceptionCallback_def PacketReceptionCallback_def InterferenceCallback_def
      NoMoreReceiversCallback_def UnderSensitivityCallback_def LostBecauseTxCallback_def
      insert_outcome_def)

theorem downlink_no_op_witness:
  "\<not> IsUplink downlink_packet
   \<and> TransmissionCallback downlink_packet 5 7 tracker_sent = tracker_sent
   \<and> MacTransmissionCallback downlink_packet 7 5 tracker_sent = tracker_sent
   \<and> MacGwReceptionCallback downlink_packet 7 5 tracker_sent = Inr tracker_sent
   \<and> PacketReceptionCallback downlink_packet 1 tracker_sent = Inr tracker_sent
   \<and> InterferenceCallback downlink_packet 1 tracker_sent = Inr tracker_sent
   \<and> NoMoreReceiversCallback downlink_packet 1 tracker_sent = Inr tracker_sent
   \<and> UnderSensitivityCallback downlink_packet 1 tracker_sent = Inr tracker_sent
   \<and> LostBecauseTxCallback downlink_packet 1 tracker_sent = Inr tracker_sent"
proof -
  have dl: "\<not> IsUplink downlink_packet"
    by (simp add: IsUplink_def downlink_packet_def)
  show ?thesis
    using dl downlink_no_op [OF dl, of 5 7 tracker_sent 5 1] by simp
qed

subsection \<open>Events for a packet that was never sent\<close>

lemma unknown_packet_phy:
  "IsUplink pkt \<Longrightarrow> map_of (m_packetTracker t) (ptr pkt) = None \<Longrightarrow>
   insert_outcome outcome pkt gwId t = Inl EndIteratorDereferenced"
  by (simp add: insert_outcome_def)

lemma unknown_packet_mac:
  "IsUplink pkt \<Longrightarrow> map_of (m_macPacketTracker t) (ptr pkt) = None \<Longrightarrow>
   MacGwReceptionCallback pkt now gw t = Inl (Abort ''Packet not found in tracker'')"
  by (simp add: MacGwReceptionCallback_def)

text \<open>
  C3. An outcome event for an uplink packet that was never recorded as transmitted is
  to fail with a reported error. On the empty tracker the MAC gateway reception
  callback does abort with its message, but each of the five PHY outcome callbacks
  dereferences the \<open>end ()\<close> iterator, with no test and no report.
\<close>

theorem unknown_packet_not_reported:
  "PacketReceptionCallback uplink_packet 1 empty_tracker = Inl EndIteratorDereferenced
   \<and> InterferenceCallback uplink_packet 1 empty_tracker = Inl EndIteratorDereferenced
   \<and> NoMoreReceiversCallback uplink_packet 1 empty_tracker = Inl EndIteratorDereferenced
   \<and> UnderSensitivityCallback uplink_packet 1 empty_tracker = Inl EndIteratorDereferenced
   \<and> LostBecauseTxCallback uplink_packet 1 empty_tracker = Inl EndIteratorDereferenced
   \<and> MacGwReceptionCallback uplink_packet 0 1 empty_tracker
       = Inl (Abort ''Packet not found in tracker'')"
  by (simp add: PacketReceptionCallback_def InterferenceCallback_def
      NoMoreReceiversCallback_def UnderSensitivityCallback_def LostBecauseTxCallback_def
      MacGwReceptionCallback_def insert_outcome_def empty_tracker_def IsUplink_def
      uplink_packet_def)

subsection \<open>Per-gateway counters\<close>

text \<open>
  C6. The string of \<open>PrintPhyPacketsPerGw\<close> is to list the six counters of
  \<open>CountPhyPacketsPerGw\<close> in the same order. For one packet that gateway 1 reported
  under sensitivity the counters are 1 0 0 0 1 0, and the string is \<open>1 0 0 0 0 1\<close>:
  the printing function counts lost-because-tx fifth and under-sensitivity sixth.
\<close>

theorem print_swaps_counters:
  "CountPhyPacketsPerGw 0 10 1 tracker_under_sensitivity = [1, 0, 0, 0, 1, 0]
   \<and> print_of_counts (CountPhyPacketsPerGw 0 10 1 tracker_under_sensitivity)
       = ''1 0 0 0 1 0 ''
   \<and> PrintPhyPacketsPerGw 0 10 1 tracker_under_sensitivity = ''1 0 0 0 0 1 ''"
  by code_simp

lemma length_incr_at [simp]: "length (incr_at i c) = length c"
  by (simp add: incr_at_def)

lemma nth_incr_at:
  "i < length c \<Longrightarrow> incr_at i c ! j = (if j = i then c ! i + 1 else c ! j)"
  by (simp add: incr_at_def)

lemma length_Count_body [simp]:
  "length (CountPhyPacketsPerGw_body a b g x c) = length c"
  by (simp add: CountPhyPacketsPerGw_body_def Let_def
      split: option.splits PhyPacketOutcome.splits)

lemma Count_body_sent:
  "length c = 6 \<Longrightarrow>
   CountPhyPacketsPerGw_body a b g x c ! 0 = c ! 0 + (if in_range a b x then 1 else 0)"
  by (simp add: CountPhyPacketsPerGw_body_def Let_def in_range_def nth_incr_at
      split: option.splits PhyPacketOutcome.splits)

text \<open>One round never lets the outcome counters gain on the sent counter.\<close>

lemma Count_body_outcomes:
  "length c = 6 \<Longrightarrow>
   outcome_sum (CountPhyPacketsPerGw_body a b g x c)
     - CountPhyPacketsPerGw_body a b g x c ! 0
   \<le> outcome_sum c - c ! 0"
  by (simp add: CountPhyPacketsPerGw_body_def Let_def outcome_sum_def nth_incr_at
      split: option.splits PhyPacketOutcome.splits)

lemma Count_body_sent_only:
  "length c = 6 \<Longrightarrow> in_range a b x \<Longrightarrow>
   map_of (outcomes (snd x)) g = None \<or> map_of (outcomes (snd x)) g = Some UNSET \<Longrightarrow>
   CountPhyPacketsPerGw_body a b g x c = incr_at 0 c"
  by (auto simp add: CountPhyPacketsPerGw_body_def Let_def in_range_def)

lemma fold_Count_length [simp]:
  "length (fold (CountPhyPacketsPerGw_body a b g) xs c) = length c"
  by (induction xs arbitrary: c) simp_all

lemma fold_Count_sent:
  "length c = 6 \<Longrightarrow>
   fold (CountPhyPacketsPerGw_body a b g) xs c ! 0
     = c ! 0 + int (length (filter (in_range a b) xs))"
  by (induction xs arbitrary: c) (simp_all add: Count_body_sent)

lemma fold_Count_outcomes:
  "length c = 6 \<Longrightarrow>
   outcome_sum (fold (CountPhyPacketsPerGw_body a b g) xs c)
     - fold (CountPhyPacketsPerGw_body a b g) xs c ! 0
   \<le> outcome_sum c - c ! 0"
proof (induction xs arbitrary: c)
  case Nil
  then show ?case by simp
next
  case (Cons x xs)
  let ?c' = "CountPhyPacketsPerGw_body a b g x c"
  have "outcome_sum (fold (CountPhyPacketsPerGw_body a b g) xs ?c')
          - fold (CountPhyPacketsPerGw_body a b g) xs ?c' ! 0
        \<le> outcome_sum ?c' - ?c' ! 0"
    using Cons.prems by (intro Cons.IH) simp
  also have "\<dots> \<le> outcome_sum c - c ! 0"
    using Cons.prems by (rule Count_body_outcomes)
  finally show ?case by simp
qed

text \<open>
  C8. For every tracker state, gateway and window, \<open>CountPhyPacketsPerGw\<close> returns six
  counters of which the received, interfered, no-more-receivers, under-sensitivity and
  lost-because-tx counters sum to at most the sent counter, and the sent counter is the
  number of tracked packets with \<open>startTime \<le> sendTime \<le> stopTime\<close>. A packet in the
  window that has no entry, or an \<open>UNSET\<close> entry, for the gateway increments the sent
  counter and nothing else.
\<close>

theorem outcome_counters_bounded:
  "length (CountPhyPacketsPerGw startTime stopTime gwId t) = 6
   \<and> CountPhyPacketsPerGw startTime stopTime gwId t ! 1
       + CountPhyPacketsPerGw startTime stopTime gwId t ! 2
       + CountPhyPacketsPerGw startTime stopTime gwId t ! 3
       + CountPhyPacketsPerGw startTime stopTime gwId t ! 4
       + CountPhyPacketsPerGw startTime stopTime gwId t ! 5
       \<le> CountPhyPacketsPerGw startTime stopTime gwId t ! 0
   \<and> CountPhyPacketsPerGw startTime stopTime gwId t ! 0
       = int (length (filter (in_range startTime stopTime) (m_packetTracker t)))
   \<and> (length c = 6 \<and> in_range startTime stopTime itPhy
        \<and> (map_of (outcomes (snd itPhy)) gwId = None
            \<or> map_of (outcomes (snd itPhy)) gwId = Some UNSET)
       \<longrightarrow> CountPhyPacketsPerGw_body startTime stopTime gwId itPhy c = incr_at 0 c)"
proof -
  let ?c = "CountPhyPacketsPerGw startTime stopTime gwId t"
  have len: "length ?c = 6"
    by (simp add: CountPhyPacketsPerGw_def)
  have sent: "?c ! 0 = int (length (filter (in_range startTime stopTime) (m_packetTracker t)))"
    by (simp add: CountPhyPacketsPerGw_def fold_Count_sent)
  have "outcome_sum ?c - ?c ! 0 \<le> outcome_sum (replicate 6 0) - replicate 6 0 ! 0"
    unfolding CountPhyPacketsPerGw_def by (rule fold_Count_outcomes) simp
  then have le: "?c ! 1 + ?c ! 2 + ?c ! 3 + ?c ! 4 + ?c ! 5 \<le> ?c ! 0"
    by (simp add: outcome_sum_def)
  show ?thesis
    using len sent le Count_body_sent_only by blast
qed

theorem outcome_counters_bounded_witness:
  "length (CountPhyPacketsPerGw 0 10 1 tracker_received) = 6
   \<and> CountPhyPacketsPerGw 0 10 1 tracker_received ! 1
       + CountPhyPacketsPerGw 0 10 1 tracker_received ! 2
       + CountPhyPacketsPerGw 0 10 1 tracker_received ! 3
       + CountPhyPacketsPerGw 0 10 1 tracker_received ! 4
       + CountPhyPacketsPerGw 0 10 1 tracker_received ! 5
       \<le> CountPhyPacketsPerGw 0 10 1 tracker_received ! 0
   \<and> CountPhyPacketsPerGw 0 10 1 tracker_received ! 0 = 1
   \<and> in_range 0 10 (hd (m_packetTracker tracker_sent))
   \<and> map_of (outcomes (snd (hd (m_packetTracker tracker_sent)))) 1 = None
   \<and> CountPhyPacketsPerGw_body 0 10 1 (hd (m_packetTracker tracker_sent))
        [0, 0, 0, 0, 0, 0] = [1, 0, 0, 0, 0, 0]"
  using outcome_counters_bounded [of 0 10 1 tracker_received "[0, 0, 0, 0, 0, 0]"
      "hd (m_packetTracker tracker_sent)"]
  by (simp add: tracker_received_def tracker_sent_def in_range_def incr_at_def)

text \<open>
  In general the printed string is that of the counters with the last two exchanged.
\<close>

lemma six_counters:
  assumes "length c = 6"
  obtains c0 c1 c2 c3 c4 c5 where "c = [c0, c1, c2, c3, c4, c5 :: int]"
  using assms by (auto simp: numeral_eq_Suc length_Suc_conv)

lemma Print_body_swap:
  assumes "length c = 6"
  shows "PrintPhyPacketsPerGw_body a b g x (swap_last_two c)
       = swap_last_two (CountPhyPacketsPerGw_body a b g x c)"
proof -
  from assms obtain c0 c1 c2 c3 c4 c5 where "c = [c0, c1, c2, c3, c4, c5]"
    by (rule six_counters)
  then show ?thesis
    by (simp add: PrintPhyPacketsPerGw_body_def CountPhyPacketsPerGw_body_def
        swap_last_two_def incr_at_def Let_def
        split: option.splits PhyPacketOutcome.splits)
qed

lemma length_swap_last_two [simp]: "length (swap_last_two c) = length c"
  by (simp add: swap_last_two_def)

lemma fold_Print_swap:
  "length c = 6 \<Longrightarrow>
   fold (PrintPhyPacketsPerGw_body a b g) xs (swap_last_two c)
     = swap_last_two (fold (CountPhyPacketsPerGw_body a b g) xs c)"
  by (induction xs arbitrary: c) (simp_all add: Print_body_swap)

lemma upt_0_6: "[0 ..< 6] = [0, 1, 2, 3, 4, 5]"
  by code_simp

lemma print_loop:
  assumes "length c = 6"
  shows "fold (\<lambda>i output. output @ to_string (c ! i) @ '' '') [0 ..< 6] [] = print_of_counts c"
proof -
  from assms obtain c0 c1 c2 c3 c4 c5 where "c = [c0, c1, c2, c3, c4, c5]"
    by (rule six_counters)
  then show ?thesis
    by (simp add: upt_0_6 print_of_counts_def)
qed

lemma PrintPhyPacketsPerGw_swapped:
  "PrintPhyPacketsPerGw startTime stopTime gwId t
     = print_of_counts (swap_last_two (CountPhyPacketsPerGw startTime stopTime gwId t))"
proof -
  have "replicate 6 (0 :: int) = swap_last_two (replicate 6 0)"
    by (simp add: swap_last_two_def numeral_eq_Suc)
  then have "fold (PrintPhyPacketsPerGw_body startTime stopTime gwId) (m_packetTracker t)
        (replicate 6 0)
      = swap_last_two (CountPhyPacketsPerGw startTime stopTime gwId t)"
    unfolding CountPhyPacketsPerGw_def by (metis fold_Print_swap length_replicate)
  then show ?thesis
    by (simp add: PrintPhyPacketsPerGw_def Let_def print_loop CountPhyPacketsPerGw_def)
qed

subsection \<open>std::map operations\<close>

lemma keys_map_insert: "fst ` set (map_insert k v m) = insert k (fst ` set m)"
  by (auto simp: map_insert_def set_insort_key map_of_eq_None_iff rev_image_eqI)

lemma set_map_insert:
  "set (map_insert k v m) = (if k \<in> fst ` set m then set m else insert (k, v) (set m))"
  by (auto simp: map_insert_def set_insort_key map_of_eq_None_iff rev_image_eqI)

lemma map_insert_present: "k \<in> fst ` set m \<Longrightarrow> map_insert k v m = m"
  by (auto simp: map_insert_def map_of_eq_None_iff)

lemma distinct_map_insert:
  "distinct (map fst m) \<Longrightarrow> distinct (map fst (map_insert k v m))"
  by (auto simp: map_insert_def distinct_map distinct_insort set_insort_key
      map_of_eq_None_iff rev_image_eqI)

lemma keys_map_modify [simp]: "map fst (map_modify k f m) = map fst m"
  by (induction m) auto

lemma set_map_modify:
  "x \<in> set (map_modify k f m) \<Longrightarrow> x \<in> set m \<or> (\<exists>v. (k, v) \<in> set m \<and> x = (k, f v))"
  by (induction m) (auto split: if_splits)

lemma map_modify_same: "map_of m k = Some v \<Longrightarrow> f v = v \<Longrightarrow> map_modify k f m = m"
  by (induction m) (auto split: if_splits)

subsection \<open>One outcome per packet and gateway\<close>

lemma insert_outcome_keeps:
  assumes "one_outcome_per_gateway t" "insert_outcome outcome pkt gwId t = Inr t'"
  shows "one_outcome_per_gateway t'"
proof (cases "IsUplink pkt \<and> map_of (m_packetTracker t) (ptr pkt) \<noteq> None")
  case False
  with assms show ?thesis
    by (auto simp: insert_outcome_def split: if_splits option.splits)
next
  case True
  let ?f = "\<lambda>st. st\<lparr>outcomes := map_insert (sint gwId) outcome (outcomes st)\<rparr>"
  from True assms(2) have t': "t' = t\<lparr>m_packetTracker := map_modify (ptr pkt) ?f (m_packetTracker t)\<rparr>"
    by (auto simp: insert_outcome_def)
  have "distinct (map fst (outcomes (snd pd)))" if "pd \<in> set (m_packetTracker t')" for pd
  proof -
    from that t' have "pd \<in> set (map_modify (ptr pkt) ?f (m_packetTracker t))" by simp
    then consider "pd \<in> set (m_packetTracker t)"
      | v where "(ptr pkt, v) \<in> set (m_packetTracker t)" "pd = (ptr pkt, ?f v)"
      using set_map_modify by fastforce
    then show ?thesis
    proof cases
      case 1
      with assms(1) show ?thesis by (simp add: one_outcome_per_gateway_def)
    next
      case 2
      with assms(1) have "distinct (map fst (outcomes v))"
        by (auto simp: one_outcome_per_gateway_def)
      with 2 show ?thesis by (simp add: distinct_map_insert)
    qed
  qed
  moreover have "distinct (map fst (m_packetTracker t'))"
    using assms(1) t' by (simp add: one_outcome_per_gateway_def)
  ultimately show ?thesis by (simp add: one_outcome_per_gateway_def)
qed

lemma Transmission_keeps:
  assumes "one_outcome_per_gateway t"
  shows "one_outcome_per_gateway (TransmissionCallback pkt edId now t)"
  using assms
  by (auto simp: TransmissionCallback_def one_outcome_per_gateway_def Let_def
      distinct_map_insert set_map_insert split: if_splits)

lemma MacTransmission_phy [simp]:
  "m_packetTracker (MacTransmissionCallback pkt now context t) = m_packetTracker t"
  by (simp add: MacTransmissionCallback_def Let_def)

lemma RequiredTransmissions_phy [simp]:
  "m_packetTracker (RequiredTransmissionsCallback reqTx success first pkt now t) = m_packetTracker t"
  by (simp add: RequiredTransmissionsCallback_def Let_def)

lemma MacGwReception_phy:
  "MacGwReceptionCallback pkt now context t = Inr t' \<Longrightarrow> m_packetTracker t' = m_packetTracker t"
  by (auto simp: MacGwReceptionCallback_def split: if_splits option.splits)

lemma deliver_keeps:
  assumes "one_outcome_per_gateway t" "deliver now e t = Inr t'"
  shows "one_outcome_per_gateway t'"
proof (cases e)
  case (MacTransmission pkt ctx)
  with assms show ?thesis by (auto simp: one_outcome_per_gateway_def)
next
  case (RequiredTransmissions reqTx success firstAtt pkt)
  with assms show ?thesis by (auto simp: one_outcome_per_gateway_def)
next
  case (MacGwReception pkt ctx)
  with assms have "m_packetTracker t' = m_packetTracker t"
    by (auto dest: MacGwReception_phy)
  with assms(1) show ?thesis by (simp add: one_outcome_per_gateway_def)
next
  case (Transmission pkt edId)
  with assms show ?thesis by (auto simp: Transmission_keeps)
next
  case (PacketReception pkt gwId)
  with assms show ?thesis by (auto simp: PacketReceptionCallback_def dest: insert_outcome_keeps)
next
  case (Interference pkt gwId)
  with assms show ?thesis by (auto simp: InterferenceCallback_def dest: insert_outcome_keeps)
next
  case (NoMoreReceivers pkt gwId)
  with assms show ?thesis by (auto simp: NoMoreReceiversCallback_def dest: insert_outcome_keeps)
next
  case (UnderSensitivity pkt gwId)
  with assms show ?thesis by (auto simp: UnderSensitivityCallback_def dest: insert_outcome_keeps)
next
  case (LostBecauseTx pkt gwId)
  with assms show ?thesis by (auto simp: LostBecauseTxCallback_def dest: insert_outcome_keeps)
qed

lemma reachable_one_outcome: "reachable now t \<Longrightarrow> one_outcome_per_gateway t"
proof (induction rule: reachable.induct)
  case start
  show ?case by (simp add: one_outcome_per_gateway_def empty_tracker_def)
next
  case (step now t now' e t')
  then show ?case using deliver_keeps by blast
qed

lemma insert_outcome_again:
  assumes "IsUplink pkt" "map_of (m_packetTracker t) (ptr pkt) = Some st"
    "map_of (outcomes st) (sint gwId) = Some recorded"
  shows "insert_outcome outcome pkt gwId t = Inr t"
proof -
  have "sint gwId \<in> fst ` set (outcomes st)"
    using assms(3) by (metis map_of_eq_None_iff option.distinct(1))
  then have "st\<lparr>outcomes := map_insert (sint gwId) outcome (outcomes st)\<rparr> = st"
    by (simp add: map_insert_present)
  then have "map_modify (ptr pkt)
      (\<lambda>st. st\<lparr>outcomes := map_insert (sint gwId) outcome (outcomes st)\<rparr>)
      (m_packetTracker t) = m_packetTracker t"
    using assms(2) by (rule map_modify_same [rotated])
  then show ?thesis
    using assms(1,2) by (simp add: insert_outcome_def)
qed

text \<open>
  C4, as the code has it. In every reachable tracker state no packet is tracked twice
  and no record lists a gateway twice, so a record holds at most one outcome per
  packet and gateway. Outcomes are write-once: when an outcome is already recorded for
  an uplink packet and a gateway, each of the five outcome callbacks for that pair
  returns normally and leaves the whole tracker, hence the recorded outcome, as it
  was. The later event is ignored without any error.
\<close>

theorem outcomes_write_once:
  assumes "reachable now t"
  shows "distinct (map fst (m_packetTracker t))
       \<and> (\<forall>pd \<in> set (m_packetTracker t). distinct (map fst (outcomes (snd pd))))
       \<and> (IsUplink pkt \<and> map_of (m_packetTracker t) (ptr pkt) = Some st
            \<and> map_of (outcomes st) (sint gwId) = Some recorded
          \<longrightarrow> PacketReceptionCallback pkt gwId t = Inr t
            \<and> InterferenceCallback pkt gwId t = Inr t
            \<and> NoMoreReceiversCallback pkt gwId t = Inr t
            \<and> UnderSensitivityCallback pkt gwId t = Inr t
            \<and> LostBecauseTxCallback pkt gwId t = Inr t)"
  using reachable_one_outcome [OF assms] insert_outcome_again [of pkt t st gwId recorded]
  by (simp add: one_outcome_per_gateway_def PacketReceptionCallback_def
      InterferenceCallback_def NoMoreReceiversCallback_def UnderSensitivityCallback_def
      LostBecauseTxCallback_def)

lemma reachable_tracker_received: "reachable 3 tracker_received"
proof -
  have 1: "reachable 0 (TransmissionCallback uplink_packet 5 0 empty_tracker)"
    using reachable.step [OF reachable.start, of 0 "Transmission uplink_packet 5"]
    by (simp add: Time_Max_def)
  have 2: "reachable 0 tracker_sent"
    using reachable.step [OF 1, of 0 "MacTransmission uplink_packet 5"] tracker_sent_built
    by (simp add: Time_Max_def)
  show ?thesis
    using reachable.step [OF 2, of 3 "PacketReception uplink_packet 1"] tracker_received_built
    by (simp add: Time_Max_def)
qed

theorem outcomes_write_once_witness:
  "reachable 3 tracker_received
   \<and> IsUplink uplink_packet
   \<and> map_of (m_packetTracker tracker_received) (ptr uplink_packet)
       = Some (snd (hd (m_packetTracker tracker_received)))
   \<and> map_of (outcomes (snd (hd (m_packetTracker tracker_received)))) (sint (1 :: 32 word))
       = Some RECEIVED
   \<and> distinct (map fst (m_packetTracker tracker_received))
   \<and> distinct (map fst (outcomes (snd (hd (m_packetTracker tracker_received)))))
   \<and> PacketReceptionCallback uplink_packet 1 tracker_received = Inr tracker_received
   \<and> InterferenceCallback uplink_packet 1 tracker_received = Inr tracker_received
   \<and> NoMoreReceiversCallback uplink_packet 1 tracker_received = Inr tracker_received
   \<and> UnderSensitivityCallback uplink_packet 1 tracker_received = Inr tracker_received
   \<and> LostBecauseTxCallback uplink_packet 1 tracker_received = Inr tracker_received"
proof -
  have a: "IsUplink uplink_packet"
    by (simp add: IsUplink_def uplink_packet_def)
  have b: "map_of (m_packetTracker tracker_received) (ptr uplink_packet)
       = Some (snd (hd (m_packetTracker tracker_received)))"
    by (simp add: tracker_received_def tracker_sent_def uplink_packet_def)
  have c: "map_of (outcomes (snd (hd (m_packetTracker tracker_received)))) (sint (1 :: 32 word))
       = Some RECEIVED"
    by (simp add: tracker_received_def tracker_sent_def)
  note w = outcomes_write_once [OF reachable_tracker_received, of uplink_packet
      "snd (hd (m_packetTracker tracker_received))" 1 RECEIVED]
  have d: "distinct (map fst (outcomes (snd (hd (m_packetTracker tracker_received)))))"
    using w by (simp add: tracker_received_def tracker_sent_def)
  show ?thesis
    using w reachable_tracker_received a b c d by simp
qed

text \<open>
  C4, as stated, asks that a second outcome event for the same packet and gateway be
  rejected as a protocol error. After gateway 1 received the packet, an interference
  event for the same packet and gateway returns normally.
\<close>

theorem duplicate_outcome_not_rejected:
  "PacketReceptionCallback uplink_packet 1 tracker_sent = Inr tracker_received
   \<and> InterferenceCallback uplink_packet 1 tracker_received = Inr tracker_received"
  by (simp add: PacketReceptionCallback_def InterferenceCallback_def insert_outcome_def
      tracker_sent_def tracker_received_def IsUplink_def uplink_packet_def map_insert_def)

subsection \<open>Earliest reception time\<close>

lemma note_reception_keeps:
  assumes "earliest_is_min st" "\<forall>x \<in> set (receptionTimes st). snd x \<le> now" "now \<le> now'"
    "now' \<le> Time_Max"
  shows "earliest_is_min (note_reception g now' st)
       \<and> (\<forall>x \<in> set (receptionTimes (note_reception g now' st)). snd x \<le> now')"
proof (cases "g \<in> fst ` set (receptionTimes st)")
  case True
  then have ne: "receptionTimes st \<noteq> []" by auto
  then have "Min (snd ` set (receptionTimes st)) \<in> snd ` set (receptionTimes st)"
    by (intro Min_in) auto
  with assms(2,3) have "Min (snd ` set (receptionTimes st)) \<le> now'" by fastforce
  moreover have "receivedTime st = Min (snd ` set (receptionTimes st))"
    using assms(1) ne by (simp add: earliest_is_min_def)
  ultimately have "\<not> now' < receivedTime st" by linarith
  with True have "note_reception g now' st = st"
    by (simp add: note_reception_def map_insert_present)
  with assms show ?thesis by fastforce
next
  case False
  then have set': "set (map_insert g now' (receptionTimes st)) = insert (g, now') (set (receptionTimes st))"
    by (simp add: set_map_insert)
  then have ne': "map_insert g now' (receptionTimes st) \<noteq> []" by auto
  have times: "\<forall>x \<in> set (receptionTimes (note_reception g now' st)). snd x \<le> now'"
    using assms(2,3) set' by (auto simp: note_reception_def Let_def)
  have "earliest_is_min (note_reception g now' st)"
  proof (cases "receptionTimes st = []")
    case True
    with assms(1) have "receivedTime st = Time_Max" by (simp add: earliest_is_min_def)
    with True assms(4) set' ne' show ?thesis
      by (auto simp: note_reception_def Let_def earliest_is_min_def)
  next
    case ne: False
    define m where "m = Min (snd ` set (receptionTimes st))"
    have old: "receivedTime st = m"
      using assms(1) ne by (simp add: earliest_is_min_def m_def)
    have "Min (insert now' (snd ` set (receptionTimes st))) = min now' m"
      unfolding m_def using ne by (intro Min_insert) auto
    then have new: "Min (snd ` set (map_insert g now' (receptionTimes st))) = min now' m"
      using set' by simp
    have "receivedTime (note_reception g now' st) = min now' m"
      using old by (simp add: note_reception_def Let_def min_def)
    moreover have "receptionTimes (note_reception g now' st)
        = map_insert g now' (receptionTimes st)"
      by (simp add: note_reception_def Let_def)
    ultimately show ?thesis
      using new ne' by (simp add: earliest_is_min_def)
  qed
  with times show ?thesis by simp
qed

lemma MacGwReception_keeps:
  assumes "mac_inv now t" "now \<le> now'" "now' \<le> Time_Max"
    "MacGwReceptionCallback pkt now' context t = Inr t'"
  shows "mac_inv now' t'"
proof (cases "IsUplink pkt")
  case False
  with assms(4) have "t' = t" by (simp add: MacGwReceptionCallback_def)
  with assms(1,2) show ?thesis by (fastforce simp: mac_inv_def)
next
  case True
  with assms(4) have t': "t' = t\<lparr>m_macPacketTracker :=
      map_modify (ptr pkt) (note_reception (sint context) now') (m_macPacketTracker t)\<rparr>"
    by (auto simp: MacGwReceptionCallback_def note_reception_def [abs_def]
        split: option.splits)
  show ?thesis
    unfolding mac_inv_def
  proof
    fix pd assume "pd \<in> set (m_macPacketTracker t')"
    with t' consider "pd \<in> set (m_macPacketTracker t)"
      | v where "(ptr pkt, v) \<in> set (m_macPacketTracker t)"
          "pd = (ptr pkt, note_reception (sint context) now' v)"
      using set_map_modify by fastforce
    then show "earliest_is_min (snd pd) \<and> (\<forall>x \<in> set (receptionTimes (snd pd)). snd x \<le> now')"
    proof cases
      case 1
      with assms(1,2) show ?thesis by (fastforce simp: mac_inv_def)
    next
      case 2
      with assms(1) have "earliest_is_min v" "\<forall>x \<in> set (receptionTimes v). snd x \<le> now"
        by (auto simp: mac_inv_def)
      with 2 assms(2,3) show ?thesis by (simp add: note_reception_keeps)
    qed
  qed
qed

lemma MacTransmission_keeps:
  assumes "mac_inv now t" "now \<le> now'"
  shows "mac_inv now' (MacTransmissionCallback pkt now' context t)"
  using assms
  by (fastforce simp: MacTransmissionCallback_def mac_inv_def Let_def set_map_insert
      earliest_is_min_def split: if_splits)

lemma mac_inv_mono:
  "mac_inv now t \<Longrightarrow> now \<le> now' \<Longrightarrow> m_macPacketTracker t' = m_macPacketTracker t \<Longrightarrow> mac_inv now' t'"
  by (fastforce simp: mac_inv_def)

lemma Transmission_mac [simp]:
  "m_macPacketTracker (TransmissionCallback pkt edId now t) = m_macPacketTracker t"
  by (simp add: TransmissionCallback_def Let_def)

lemma RequiredTransmissions_mac [simp]:
  "m_macPacketTracker (RequiredTransmissionsCallback reqTx success firstAtt pkt now t)
     = m_macPacketTracker t"
  by (simp add: RequiredTransmissionsCallback_def Let_def)

lemma insert_outcome_mac:
  "insert_outcome outcome pkt gwId t = Inr t' \<Longrightarrow> m_macPacketTracker t' = m_macPacketTracker t"
  by (auto simp: insert_outcome_def split: if_splits option.splits)

lemma deliver_keeps_mac:
  assumes "mac_inv now t" "now \<le> now'" "now' \<le> Time_Max" "deliver now' e t = Inr t'"
  shows "mac_inv now' t'"
proof (cases e)
  case (MacTransmission pkt ctx)
  with assms show ?thesis by (auto simp: MacTransmission_keeps)
next
  case (RequiredTransmissions reqTx success firstAtt pkt)
  with assms show ?thesis by (auto intro: mac_inv_mono)
next
  case (MacGwReception pkt ctx)
  with assms show ?thesis by (auto intro: MacGwReception_keeps)
next
  case (Transmission pkt edId)
  with assms show ?thesis by (auto intro: mac_inv_mono)
next
  case (PacketReception pkt gwId)
  with assms show ?thesis
    by (auto simp: PacketReceptionCallback_def intro: mac_inv_mono dest: insert_outcome_mac)
next
  case (Interference pkt gwId)
  with assms show ?thesis
    by (auto simp: InterferenceCallback_def intro: mac_inv_mono dest: insert_outcome_mac)
next
  case (NoMoreReceivers pkt gwId)
  with assms show ?thesis
    by (auto simp: NoMoreReceiversCallback_def intro: mac_inv_mono dest: insert_outcome_mac)
next
  case (UnderSensitivity pkt gwId)
  with assms show ?thesis
    by (auto simp: UnderSensitivityCallback_def intro: mac_inv_mono dest: insert_outcome_mac)
next
  case (LostBecauseTx pkt gwId)
  with assms show ?thesis
    by (auto simp: LostBecauseTxCallback_def intro: mac_inv_mono dest: insert_outcome_mac)
qed

lemma reachable_mac_inv: "reachable now t \<Longrightarrow> mac_inv now t"
proof (induction rule: reachable.induct)
  case start
  show ?case by (simp add: mac_inv_def empty_tracker_def)
next
  case (step now t now' e t')
  then show ?case using deliver_keeps_mac by blast
qed

lemma reachable_tracker_sent: "reachable 0 tracker_sent"
proof -
  have "reachable 0 (TransmissionCallback uplink_packet 5 0 empty_tracker)"
    using reachable.step [OF reachable.start, of 0 "Transmission uplink_packet 5"]
    by (simp add: Time_Max_def)
  then show ?thesis
    using reachable.step [of 0 _ 0 "MacTransmission uplink_packet 5"] tracker_sent_built
    by (simp add: Time_Max_def)
qed

lemma tracker_heard_once_built:
  "MacGwReceptionCallback uplink_packet 3 2 tracker_sent = Inr tracker_heard_once"
  by (simp add: MacGwReceptionCallback_def tracker_sent_def tracker_heard_once_def
      IsUplink_def uplink_packet_def map_insert_def Time_Max_def)

lemma tracker_heard_twice_built:
  "MacGwReceptionCallback uplink_packet 4 1 tracker_heard_once = Inr tracker_heard_twice"
  by (simp add: MacGwReceptionCallback_def tracker_sent_def tracker_heard_once_def
      tracker_heard_twice_def IsUplink_def uplink_packet_def map_insert_def)

lemma reachable_tracker_heard_once: "reachable 3 tracker_heard_once"
  using reachable.step [OF reachable_tracker_sent, of 3 "MacGwReception uplink_packet 2"]
    tracker_heard_once_built
  by (simp add: Time_Max_def)

text \<open>
  C7. In every reachable tracker state the earliest reception time of each MAC record
  is the least reception time in its gateway map, or \<open>Time::Max ()\<close> when no gateway
  has received the packet; and a MAC gateway reception event at the current or a later
  time, from whichever gateway and whether or not that gateway reported before, leads
  to a state in which this holds again.
\<close>

theorem earliest_received_is_minimum:
  assumes "reachable now t"
  shows "(\<forall>pd \<in> set (m_macPacketTracker t).
            receivedTime (snd pd)
              = (if receptionTimes (snd pd) = [] then Time_Max
                 else Min (snd ` set (receptionTimes (snd pd)))))
       \<and> (now \<le> now' \<and> now' \<le> Time_Max
            \<and> MacGwReceptionCallback pkt now' gw t = Inr t'
          \<longrightarrow> (\<forall>pd \<in> set (m_macPacketTracker t').
                 receivedTime (snd pd)
                   = (if receptionTimes (snd pd) = [] then Time_Max
                      else Min (snd ` set (receptionTimes (snd pd))))))"
  using reachable_mac_inv [OF assms] MacGwReception_keeps [of now t now' pkt gw t']
  by (simp add: mac_inv_def earliest_is_min_def)

theorem earliest_received_is_minimum_witness:
  "reachable 3 tracker_heard_once
   \<and> (3 :: Time) \<le> 4 \<and> 4 \<le> Time_Max
   \<and> MacGwReceptionCallback uplink_packet 4 1 tracker_heard_once = Inr tracker_heard_twice
   \<and> receptionTimes (snd (hd (m_macPacketTracker tracker_heard_once))) = [(2, 3)]
   \<and> receivedTime (snd (hd (m_macPacketTracker tracker_heard_once)))
       = Min (snd ` set (receptionTimes (snd (hd (m_macPacketTracker tracker_heard_once)))))
   \<and> receptionTimes (snd (hd (m_macPacketTracker tracker_heard_twice))) = [(1, 4), (2, 3)]
   \<and> receivedTime (snd (hd (m_macPacketTracker tracker_heard_twice)))
       = Min (snd ` set (receptionTimes (snd (hd (m_macPacketTracker tracker_heard_twice)))))"
proof -
  note w = earliest_received_is_minimum [OF reachable_tracker_heard_once,
      of 4 uplink_packet 1 tracker_heard_twice]
  have bound: "(4 :: Time) \<le> Time_Max"
    by (simp add: Time_Max_def)
  have "receivedTime (snd (hd (m_macPacketTracker tracker_heard_once)))
       = Min (snd ` set (receptionTimes (snd (hd (m_macPacketTracker tracker_heard_once)))))"
    using w by (simp add: tracker_heard_once_def)
  moreover have "receivedTime (snd (hd (m_macPacketTracker tracker_heard_twice)))
       = Min (snd ` set (receptionTimes (snd (hd (m_macPacketTracker tracker_heard_twice)))))"
    using w bound tracker_heard_twice_built by (simp add: tracker_heard_twice_def)
  moreover have "receptionTimes (snd (hd (m_macPacketTracker tracker_heard_once))) = [(2, 3)]"
    "receptionTimes (snd (hd (m_macPacketTracker tracker_heard_twice))) = [(1, 4), (2, 3)]"
    by (simp_all add: tracker_heard_once_def tracker_heard_twice_def)
  ultimately show ?thesis
    using reachable_tracker_heard_once tracker_heard_twice_built bound by simp
qed

subsection \<open>Simulation statistics\<close>

lemma loop_received:
  "fst (outcomes_loop b outs (False, i, n, g, r)) = (RECEIVED \<in> snd ` set outs)"
  by (induction outs arbitrary: i n g) auto

lemma loop_not_received:
  "RECEIVED \<notin> snd ` set outs \<Longrightarrow>
   outcomes_loop b outs (False, i, n, g, r)
     = (False, i \<or> INTERFERED \<in> snd ` set outs, n \<or> NO_MORE_RECEIVERS \<in> snd ` set outs,
        g \<or> LOST_BECAUSE_TX \<in> snd ` set outs, r)"
  by (induction outs arbitrary: i n g) auto

lemma loop_bytes:
  "snd (snd (snd (snd (outcomes_loop b outs (False, i, n, g, r)))))
     = r + (if RECEIVED \<in> snd ` set outs then b else 0)"
  by (induction outs arbitrary: i n g) auto

text \<open>
  For a start time at least five seconds after \<open>Time::Min ()\<close> the window test is the
  plain one: the packet was sent no earlier than five seconds before \<open>startTime\<close>.
\<close>

lemma int64_exact: "Time_Min \<le> x \<Longrightarrow> x \<le> Time_Max \<Longrightarrow> int64 x = x"
  by (simp add: int64_def Time_Min_def Time_Max_def)

lemma in_window_exact:
  assumes "Time_Min + Seconds 5 \<le> startTime" "startTime \<le> Time_Max"
  shows "in_window startTime pd
       = (startTime - Seconds 5 \<le> PacketStatus.sendTime (snd pd))"
proof -
  have "int64 (startTime - Seconds 5) = startTime - Seconds 5"
    using assms by (intro int64_exact) (simp_all add: Seconds_def)
  then show ?thesis
    by (auto simp: in_window_def)
qed

text \<open>
  At \<open>startTime = Time::Min ()\<close> the difference wraps around to a time near
  \<open>Time::Max ()\<close>, and a packet sent at time 0 is skipped.
\<close>

lemma in_window_wrapped:
  "\<not> in_window Time_Min (hd (m_packetTracker tracker_two_packets))"
  by (simp add: in_window_def int64_def Time_Min_def Seconds_def tracker_two_packets_def)

lemma body_skip: "\<not> in_window startTime pd \<Longrightarrow> PrintSimulationStatistics_body startTime dflt pd s = s"
  by (simp add: PrintSimulationStatistics_body_def in_window_def)

lemma body_total:
  "total (PrintSimulationStatistics_body startTime dflt pd s)
     = total s + (if in_window startTime pd then 1 else 0)"
  by (simp add: PrintSimulationStatistics_body_def in_window_def Let_def split: prod.splits)

lemma body_count:
  "count_of c (PrintSimulationStatistics_body startTime dflt pd s)
     = count_of c s
       + (if in_window startTime pd \<and> category_spec (outcomes (snd pd)) = c then 1 else 0)"
proof (cases "in_window startTime pd")
  case False
  then show ?thesis by (simp add: body_skip)
next
  case True
  let ?loop = "outcomes_loop (real (unat (GetSize (PacketStatus.packet (snd pd)))))
      (outcomes (snd pd)) (False, False, False, False, totBytesReceived s)"
  show ?thesis
  proof (cases "RECEIVED \<in> snd ` set (outcomes (snd pd))")
    case rcv: True
    then have "fst ?loop" by (simp add: loop_received)
    then obtain i n g r where "?loop = (True, i, n, g, r)"
      by (metis (full_types) prod.collapse)
    with True rcv show ?thesis
      by (cases c) (simp_all add: PrintSimulationStatistics_body_def in_window_def Let_def
          category_spec_def)
  next
    case False
    then have "?loop = (False, INTERFERED \<in> snd ` set (outcomes (snd pd)),
        NO_MORE_RECEIVERS \<in> snd ` set (outcomes (snd pd)),
        LOST_BECAUSE_TX \<in> snd ` set (outcomes (snd pd)), totBytesReceived s)"
      by (simp add: loop_not_received)
    with True False show ?thesis
      by (cases c) (simp_all add: PrintSimulationStatistics_body_def in_window_def Let_def
          category_spec_def)
  qed
qed

lemma fold_total:
  "total (fold (PrintSimulationStatistics_body startTime dflt) xs s)
     = total s + of_nat (length (filter (in_window startTime) xs))"
  by (induction xs arbitrary: s) (simp_all add: body_total)

lemma fold_count:
  "count_of c (fold (PrintSimulationStatistics_body startTime dflt) xs s)
     = count_of c s
       + real (length (filter (\<lambda>pd. in_window startTime pd
                                   \<and> category_spec (outcomes (snd pd)) = c) xs))"
  by (induction xs arbitrary: s) (simp_all add: body_count)

lemma fold_skip:
  "filter (in_window startTime) xs = [] \<Longrightarrow>
   fold (PrintSimulationStatistics_body startTime dflt) xs s = s"
  by (induction xs arbitrary: s) (simp_all add: body_skip split: if_splits)

lemma category_spec_cases:
  "category_spec outs = RECEIVED \<or> category_spec outs = INTERFERED
   \<or> category_spec outs = NO_MORE_RECEIVERS \<or> category_spec outs = LOST_BECAUSE_TX
   \<or> category_spec outs = UNDER_SENSITIVITY"
  by (simp add: category_spec_def)

lemma categories_partition:
  "length (filter (\<lambda>pd. P pd \<and> category_spec (outcomes (snd pd)) = RECEIVED) xs)
   + length (filter (\<lambda>pd. P pd \<and> category_spec (outcomes (snd pd)) = INTERFERED) xs)
   + length (filter (\<lambda>pd. P pd \<and> category_spec (outcomes (snd pd)) = NO_MORE_RECEIVERS) xs)
   + length (filter (\<lambda>pd. P pd \<and> category_spec (outcomes (snd pd)) = LOST_BECAUSE_TX) xs)
   + length (filter (\<lambda>pd. P pd \<and> category_spec (outcomes (snd pd)) = UNDER_SENSITIVITY) xs)
   = length (filter P xs)"
proof (induction xs)
  case Nil
  show ?case by simp
next
  case (Cons x xs)
  show ?case
    using Cons.IH category_spec_cases [of "outcomes (snd x)"] by auto
qed


lemma percent_Finite: "n \<noteq> 0 \<Longrightarrow> percent x n = Finite (x / real (unat n) * 100)"
  by (simp add: percent_def unsigned_eq_0_iff)

lemma percent_zero: "percent 0 0 = NaN"
  by (simp add: percent_def)

lemma count_of_init [simp]: "count_of c Totals_init = 0"
  by (cases c) (simp_all add: Totals_init_def)

lemma in_category_count:
  "count_of c (fold (PrintSimulationStatistics_body startTime dflt) (m_packetTracker t) Totals_init)
     = real (length (in_category startTime c t))"
  by (simp add: fold_count in_category_def)

lemma in_category_partition:
  "length (in_category startTime RECEIVED t) + length (in_category startTime INTERFERED t)
   + length (in_category startTime NO_MORE_RECEIVERS t)
   + length (in_category startTime LOST_BECAUSE_TX t)
   + length (in_category startTime UNDER_SENSITIVITY t)
   = length (filter (in_window startTime) (m_packetTracker t))"
  unfolding in_category_def by (rule categories_partition)

text \<open>
  C2. Let \<open>n\<close> be the number of tracked packets that the statistics do not skip (the
  loop's own test, with its 64-bit difference \<open>startTime - Seconds (5)\<close>), with
  \<open>0 < n < 2^32\<close> (the range of the \<open>uint32_t\<close> packet count). Then the report counts
  every such packet in exactly one of the five categories, namely the first of
  Received, Interfered, NoMoreReceivers, LostBecauseTx that some gateway recorded for
  it, and UnderSensitivity otherwise: the five category sizes add up to \<open>n\<close>, each
  reported percentage is its category's share of \<open>n\<close>, and the five percentages add
  up to 100.
\<close>

theorem statistics_classification:
  assumes "startTime < now"
    and "n = length (filter (in_window startTime) (m_packetTracker t))"
    and "0 < n" and "n < 2 ^ 32"
  shows "\<exists>r. PrintSimulationStatistics startTime now dflt t = Inr r
     \<and> packets_sent r = of_nat n
     \<and> length (in_category startTime RECEIVED t)
         + length (in_category startTime INTERFERED t)
         + length (in_category startTime NO_MORE_RECEIVERS t)
         + length (in_category startTime LOST_BECAUSE_TX t)
         + length (in_category startTime UNDER_SENSITIVITY t) = n
     \<and> packets_received r = real (length (in_category startTime RECEIVED t))
     \<and> pct_RECEIVED r
         = Finite (real (length (in_category startTime RECEIVED t)) / real n * 100)
     \<and> pct_INTERFERED r
         = Finite (real (length (in_category startTime INTERFERED t)) / real n * 100)
     \<and> pct_NO_MORE_RECEIVERS r
         = Finite (real (length (in_category startTime NO_MORE_RECEIVERS t)) / real n * 100)
     \<and> pct_BUSY_GATEWAY r
         = Finite (real (length (in_category startTime LOST_BECAUSE_TX t)) / real n * 100)
     \<and> pct_UNDER_SENSITIVITY r
         = Finite (real (length (in_category startTime UNDER_SENSITIVITY t)) / real n * 100)
     \<and> dadd (dadd (dadd (dadd (pct_RECEIVED r) (pct_INTERFERED r))
                 (pct_NO_MORE_RECEIVERS r)) (pct_BUSY_GATEWAY r)) (pct_UNDER_SENSITIVITY r)
         = Finite 100"
proof -
  define s where
    "s = fold (PrintSimulationStatistics_body startTime dflt) (m_packetTracker t) Totals_init"
  have count: "count_of c s = real (length (in_category startTime c t))" for c
    unfolding s_def by (rule in_category_count)
  have tot: "total s = of_nat n"
    by (simp add: s_def fold_total assms(2) Totals_init_def)
  have "unat (of_nat n :: 32 word) = n"
    using assms(4) by (simp add: unat_of_nat)
  with tot assms(3) have n: "unat (total s) = n" "total s \<noteq> 0"
    by auto
  have part: "length (in_category startTime RECEIVED t)
         + length (in_category startTime INTERFERED t)
         + length (in_category startTime NO_MORE_RECEIVERS t)
         + length (in_category startTime LOST_BECAUSE_TX t)
         + length (in_category startTime UNDER_SENSITIVITY t) = n"
    using in_category_partition [of startTime t] assms(2) by simp
  have pct: "percent (count_of c s) (total s)
      = Finite (real (length (in_category startTime c t)) / real n * 100)" for c
    using n by (simp add: percent_Finite count)
  have "real (length (in_category startTime RECEIVED t)) / real n * 100
      + real (length (in_category startTime INTERFERED t)) / real n * 100
      + real (length (in_category startTime NO_MORE_RECEIVERS t)) / real n * 100
      + real (length (in_category startTime LOST_BECAUSE_TX t)) / real n * 100
      + real (length (in_category startTime UNDER_SENSITIVITY t)) / real n * 100
      = real (length (in_category startTime RECEIVED t)
         + length (in_category startTime INTERFERED t)
         + length (in_category startTime NO_MORE_RECEIVERS t)
         + length (in_category startTime LOST_BECAUSE_TX t)
         + length (in_category startTime UNDER_SENSITIVITY t)) / real n * 100"
    by (simp add: add_divide_distrib distrib_right)
  also have "\<dots> = 100"
    using part assms(3) by simp
  finally have sum: "real (length (in_category startTime RECEIVED t)) / real n * 100
      + real (length (in_category startTime INTERFERED t)) / real n * 100
      + real (length (in_category startTime NO_MORE_RECEIVERS t)) / real n * 100
      + real (length (in_category startTime LOST_BECAUSE_TX t)) / real n * 100
      + real (length (in_category startTime UNDER_SENSITIVITY t)) / real n * 100 = 100" .
  show ?thesis
    using assms(1) tot part sum count [of RECEIVED] pct [of RECEIVED] pct [of INTERFERED]
      pct [of NO_MORE_RECEIVERS] pct [of LOST_BECAUSE_TX] pct [of UNDER_SENSITIVITY]
    by (simp add: PrintSimulationStatistics_def Let_def s_def [symmetric])
qed


lemma two_packets_categories:
  "length (in_category 0 RECEIVED tracker_two_packets) = 1"
  "length (in_category 0 INTERFERED tracker_two_packets) = 1"
  "length (in_category 0 NO_MORE_RECEIVERS tracker_two_packets) = 0"
  "length (in_category 0 LOST_BECAUSE_TX tracker_two_packets) = 0"
  "length (in_category 0 UNDER_SENSITIVITY tracker_two_packets) = 0"
  "length (filter (in_window 0) (m_packetTracker tracker_two_packets)) = 2"
  by (simp_all add: in_category_def in_window_def category_spec_def tracker_two_packets_def
      Seconds_def int64_def)

theorem statistics_classification_witness:
  "(0 :: Time) < 10
   \<and> length (filter (in_window 0) (m_packetTracker tracker_two_packets)) = 2
   \<and> (0 :: nat) < 2 \<and> (2 :: nat) < 2 ^ 32
   \<and> (\<exists>r. PrintSimulationStatistics 0 10 params_sf12 tracker_two_packets = Inr r
          \<and> packets_sent r = 2 \<and> packets_received r = 1
          \<and> pct_RECEIVED r = Finite 50 \<and> pct_INTERFERED r = Finite 50
          \<and> pct_NO_MORE_RECEIVERS r = Finite 0 \<and> pct_BUSY_GATEWAY r = Finite 0
          \<and> pct_UNDER_SENSITIVITY r = Finite 0
          \<and> dadd (dadd (dadd (dadd (pct_RECEIVED r) (pct_INTERFERED r))
                      (pct_NO_MORE_RECEIVERS r)) (pct_BUSY_GATEWAY r))
               (pct_UNDER_SENSITIVITY r) = Finite 100)"
  using statistics_classification [of 0 10 2 tracker_two_packets params_sf12]
  by (simp add: two_packets_categories)

text \<open>
  C5, as the code has it. When no tracked packet falls in the window, the statistics
  function does not fail: it returns a report with 0 packets sent and 0 received, and
  with zero input traffic, throughput and offered traffic.
\<close>

theorem empty_window_report:
  assumes "startTime < now"
    and "filter (in_window startTime) (m_packetTracker t) = []"
  shows "\<exists>r. PrintSimulationStatistics startTime now dflt t = Inr r
     \<and> packets_sent r = 0 \<and> packets_received r = 0
     \<and> input_traffic r = Finite 0 \<and> network_throughput r = Finite 0
     \<and> total_offered_traffic r = Finite 0"
proof -
  have "fold (PrintSimulationStatistics_body startTime dflt) (m_packetTracker t) Totals_init
      = Totals_init"
    using assms(2) by (rule fold_skip)
  moreover have "GetSeconds (now - startTime) \<noteq> 0"
    using assms(1) by (simp add: GetSeconds_def)
  ultimately show ?thesis
    using assms(1) by (simp add: PrintSimulationStatistics_def Let_def Totals_init_def)
qed

theorem empty_window_report_witness:
  "Seconds 10 < Seconds 20
   \<and> filter (in_window (Seconds 10)) (m_packetTracker tracker_sent) = []
   \<and> (\<exists>r. PrintSimulationStatistics (Seconds 10) (Seconds 20) params_sf12 tracker_sent = Inr r
          \<and> packets_sent r = 0 \<and> packets_received r = 0
          \<and> input_traffic r = Finite 0 \<and> network_throughput r = Finite 0
          \<and> total_offered_traffic r = Finite 0)"
proof -
  have a: "Seconds 10 < Seconds 20"
    by (simp add: Seconds_def)
  have b: "filter (in_window (Seconds 10)) (m_packetTracker tracker_sent) = []"
    by (simp add: in_window_def tracker_sent_def Seconds_def int64_def)
  show ?thesis
    using a b empty_window_report [OF a b, of params_sf12] by simp
qed

text \<open>
  C5, as stated, asks for a \<open>NoTraffic\<close> failure and a guarded division when the
  window is empty. On the empty tracker the function returns a report, and its five
  percentages are \<open>0 / 0 * 100\<close>.
\<close>

theorem empty_window_not_guarded:
  "PrintSimulationStatistics 0 10 params_sf12 empty_tracker
     = Inr \<lparr>packets_sent = 0, packets_received = 0, pct_RECEIVED = NaN,
            pct_INTERFERED = NaN, pct_NO_MORE_RECEIVERS = NaN, pct_BUSY_GATEWAY = NaN,
            pct_UNDER_SENSITIVITY = NaN, input_traffic = Finite 0,
            network_throughput = Finite 0, total_offered_traffic = Finite 0\<rparr>"
  by (simp add: PrintSimulationStatistics_def empty_tracker_def Totals_init_def percent_def
      GetSeconds_def)

end
